theory Spec2Isabelle
  imports Main
begin

section \<open>Strings\<close>

text \<open>
  A JavaScript string is modelled as a \<^typ>\<open>string\<close>, one \<^typ>\<open>char\<close> per code unit.
  \<open>toLowerCase\<close> is modelled on the ASCII letters; every other character is left
  as it is.
\<close>

definition toLowerCase_char :: "char \<Rightarrow> char" where
  "toLowerCase_char c =
     (case map_of (zip ''ABCDEFGHIJKLMNOPQRSTUVWXYZ'' ''abcdefghijklmnopqrstuvwxyz'') c of
        Some l \<Rightarrow> l
      | None \<Rightarrow> c)"

definition toLowerCase :: "string \<Rightarrow> string" where
  "toLowerCase s = map toLowerCase_char s"

fun startsWith :: "string \<Rightarrow> string \<Rightarrow> bool" where
  "startsWith s [] = True"
| "startsWith [] (p # ps) = False"
| "startsWith (c # s) (p # ps) = (c = p \<and> startsWith s ps)"

definition endsWith :: "string \<Rightarrow> string \<Rightarrow> bool" where
  "endsWith s suf = startsWith (rev s) (rev suf)"

text \<open>\<open>s.includes(sub)\<close>: \<open>sub\<close> occurs in \<open>s\<close> as a contiguous substring.\<close>

fun includes_str :: "string \<Rightarrow> string \<Rightarrow> bool" where
  "includes_str [] sub = startsWith [] sub"
| "includes_str (c # s) sub = (startsWith (c # s) sub \<or> includes_str s sub)"

text \<open>The double quote character, which the source writes inside template strings.\<close>

definition dquote :: string where
  "dquote = [CHR 0x22]"

section \<open>PII masking (src/tools/users.ts, \<open>isPIIAttribute\<close> and \<open>maskValue\<close>)\<close>

definition piiAttributes :: "string list" where
  "piiAttributes =
     [''email'', ''login'', ''firstName'', ''lastName'', ''displayName'', ''nickName'',
      ''mobilePhone'', ''primaryPhone'', ''streetAddress'', ''secondEmail'',
      ''employeeNumber'', ''manager'', ''managerId'']"

text \<open>\<open>piiAttributes.includes(attribute.toLowerCase())\<close>: the lower-cased attribute is
  looked up among the entries as they are written.\<close>

definition isPIIAttribute :: "string \<Rightarrow> bool" where
  "isPIIAttribute attribute = (toLowerCase attribute \<in> set piiAttributes)"

definition maskValue :: "string \<Rightarrow> string" where
  "maskValue v =
     (if length v \<le> 3 then ''***''
      else [v ! 0] @ replicate (length v - 2) (CHR ''*'') @ [v ! (length v - 1)])"

text \<open>Line 906 of users.ts: the value echoed in the first line of the search response.\<close>

definition displayValue :: "string \<Rightarrow> string \<Rightarrow> string" where
  "displayValue attribute v = (if isPIIAttribute attribute then maskValue v else v)"

section \<open>The directory client\<close>

text \<open>
  A thrown JavaScript error is an \<open>Error\<close> carrying its message; the handlers read
  nothing else of it (\<open>error instanceof Error ? error.message : String(error)\<close>).
\<close>

datatype error = Error (message: string)

text \<open>
  A profile attribute read by name is \<open>undefined\<close> (no entry in the map), \<open>null\<close> or a
  string.
\<close>

datatype attr = Null | Str string

text \<open>
  The fields of a directory user that the search and onboarding logic reads. An absent
  \<open>id\<close> (\<open>undefined\<close>, \<open>null\<close>) and the empty string are both falsy and are both
  written \<open>[]\<close>.
\<close>

record user =
  user_id :: string
  status :: string
  profile :: "(string \<rightharpoonup> attr) option"

text \<open>The parameters of \<open>userApi.listUsers\<close>: \<open>{search, limit}\<close> or \<open>{limit}\<close>.\<close>

record list_params =
  p_search :: "string option"
  p_limit :: nat

text \<open>The body of \<open>userApi.createUser\<close>: the profile built from one CSV row.\<close>

record new_user =
  nu_firstName :: string
  nu_lastName :: string
  nu_email :: string
  nu_login :: string
  nu_department :: "string option"
  nu_title :: "string option"
  nu_mobilePhone :: "string option"

datatype call =
    ListUsers list_params
  | GetUser string
  | CreateUser new_user
  | ActivateUser string bool
  | AssignUserToGroup string string
  | AssignUserToApplication string string

type_synonym history = "call list"

text \<open>
  The remote directory is an external collaborator. Each operation of the client answers
  from the calls made so far and its own arguments, and either raises (\<open>Inl\<close>) or returns
  (\<open>Inr\<close>); this covers every deterministic directory, stateful ones included. The model
  threads the history of calls through every function, so that what was attempted, and in
  which order, can be read off the result. The collection that \<open>listUsers\<close> returns is
  the list of the users it yields when iterated (\<open>None\<close> when the call returns nothing),
  and \<open>getUser\<close> returns the user, if any.
\<close>

record client =
  listUsers :: "history \<Rightarrow> list_params \<Rightarrow> error + user list option"
  getUser :: "history \<Rightarrow> string \<Rightarrow> error + user option"
  createUser :: "history \<Rightarrow> new_user \<Rightarrow> error + string option"
  activateUser :: "history \<Rightarrow> string \<Rightarrow> bool \<Rightarrow> error + unit"
  assignUserToGroup :: "history \<Rightarrow> string \<Rightarrow> string \<Rightarrow> error + unit"
  assignUserToApplication :: "history \<Rightarrow> string \<Rightarrow> string \<Rightarrow> error + unit"

definition call_listUsers ::
  "client \<Rightarrow> list_params \<Rightarrow> history \<Rightarrow> (error + user list option) \<times> history" where
  "call_listUsers cl p h = (listUsers cl h p, h @ [ListUsers p])"

definition call_getUser ::
  "client \<Rightarrow> string \<Rightarrow> history \<Rightarrow> (error + user option) \<times> history" where
  "call_getUser cl uid h = (getUser cl h uid, h @ [GetUser uid])"

section \<open>Search strategy selection (src/tools/users.ts, \<open>find_users_by_attribute\<close>)\<close>

datatype operator = Eq | Sw | Ew | Co | Pr

fun op_str :: "operator \<Rightarrow> string" where
  "op_str Eq = ''eq''"
| "op_str Sw = ''sw''"
| "op_str Ew = ''ew''"
| "op_str Co = ''co''"
| "op_str Pr = ''pr''"

text \<open>The validated arguments of \<open>find_users_by_attribute\<close> (schema \<open>getUserByAttribute\<close>).\<close>

record criterion =
  attribute :: string
  search_value :: string
  operator :: operator
  limit :: nat
  includeInactive :: bool

text \<open>\<open>limit || 50\<close>\<close>

definition limit_or_50 :: "criterion \<Rightarrow> nat" where
  "limit_or_50 c = (if limit c = 0 then 50 else limit c)"

definition searchQuery :: "criterion \<Rightarrow> string" where
  "searchQuery c =
     (if operator c = Pr then ''profile.'' @ attribute c @ '' pr''
      else ''profile.'' @ attribute c @ '' '' @ op_str (operator c) @ '' '' @
           dquote @ search_value c @ dquote)"

definition searchParams :: "criterion \<Rightarrow> list_params" where
  "searchParams c = \<lparr>p_search = Some (searchQuery c), p_limit = limit_or_50 c\<rparr>"

definition freeTextParams :: "criterion \<Rightarrow> list_params" where
  "freeTextParams c = \<lparr>p_search = Some (search_value c), p_limit = limit_or_50 c\<rparr>"

definition basicParams :: list_params where
  "basicParams = \<lparr>p_search = None, p_limit = 200\<rparr>"

definition formatted_search :: string where
  "formatted_search = ''formatted search''"

definition free_text_search :: string where
  "free_text_search = ''free-text search''"

definition client_side_filtering :: string where
  "client_side_filtering = ''client-side filtering (limited to 200 users)''"

text \<open>
  Lines 744-796: the three strategies. The result is the collection and the
  \<open>searchMethod\<close> that produced it; a failure of the last strategy tried is not caught
  here and leaves the block as a raise.
\<close>

definition select_users ::
  "client \<Rightarrow> criterion \<Rightarrow> history \<Rightarrow> (error + user list option \<times> string) \<times> history" where
  "select_users cl c h =
     (case call_listUsers cl (searchParams c) h of
        (Inr users, h1) \<Rightarrow> (Inr (users, formatted_search), h1)
      | (Inl searchError, h1) \<Rightarrow>
          if includes_str (message searchError) ''operator is not supported'' then
            (case call_listUsers cl (freeTextParams c) h1 of
               (Inr users, h2) \<Rightarrow> (Inr (users, free_text_search), h2)
             | (Inl freeTextError, h2) \<Rightarrow>
                 (case call_listUsers cl basicParams h2 of
                    (Inr users, h3) \<Rightarrow> (Inr (users, client_side_filtering), h3)
                  | (Inl e, h3) \<Rightarrow> (Inl e, h3)))
          else
            (case call_listUsers cl basicParams h1 of
               (Inr users, h2) \<Rightarrow> (Inr (users, client_side_filtering), h2)
             | (Inl e, h2) \<Rightarrow> (Inl e, h2)))"

text \<open>Lines 810-814: the candidates are the listed users with a truthy \<open>id\<close>.\<close>

definition candidateUsers :: "user list \<Rightarrow> user list" where
  "candidateUsers users = filter (\<lambda>u. user_id u \<noteq> []) users"

text \<open>What one pass through a loop body ends with: \<open>continue\<close> (or falling off the end
  of the body) or \<open>break\<close>.\<close>

datatype control = Continue | Break

text \<open>
  Lines 822-838, the body of the loop over the candidates of a formatted search: the full
  record is fetched, a record without profile is skipped, the status rule is applied, and
  a failed fetch is caught and skipped.
\<close>

definition status_filter_body ::
  "client \<Rightarrow> criterion \<Rightarrow> user \<Rightarrow> user list \<Rightarrow> history \<Rightarrow> control \<times> user list \<times> history" where
  "status_filter_body cl c u matchingUsers h =
     (case call_getUser cl (user_id u) h of
        (Inl userError, h') \<Rightarrow> (Continue, matchingUsers, h')
      | (Inr None, h') \<Rightarrow> (Continue, matchingUsers, h')
      | (Inr (Some fullUser), h') \<Rightarrow>
          (case profile fullUser of
             None \<Rightarrow> (Continue, matchingUsers, h')
           | Some prof \<Rightarrow>
               if \<not> includeInactive c \<and> status fullUser \<noteq> ''ACTIVE''
               then (Continue, matchingUsers, h')
               else (Continue, matchingUsers @ [fullUser], h')))"

text \<open>The comparison of lines 872-889, for the operators other than \<open>pr\<close>.\<close>

definition isMatch :: "operator \<Rightarrow> string \<Rightarrow> string \<Rightarrow> bool" where
  "isMatch oper attrValueStr searchValueStr =
     (case oper of
        Eq \<Rightarrow> attrValueStr = searchValueStr
      | Sw \<Rightarrow> startsWith attrValueStr searchValueStr
      | Ew \<Rightarrow> endsWith attrValueStr searchValueStr
      | Co \<Rightarrow> includes_str attrValueStr searchValueStr
      | Pr \<Rightarrow> False)"

text \<open>
  Lines 841-902, the body of the verification loop for free-text search and client-side
  filtering.
\<close>

definition verify_body ::
  "client \<Rightarrow> criterion \<Rightarrow> user \<Rightarrow> user list \<Rightarrow> history \<Rightarrow> control \<times> user list \<times> history" where
  "verify_body cl c u matchingUsers h =
     (case call_getUser cl (user_id u) h of
        (Inl userError, h') \<Rightarrow> (Continue, matchingUsers, h')
      | (Inr None, h') \<Rightarrow> (Continue, matchingUsers, h')
      | (Inr (Some fullUser), h') \<Rightarrow>
          (case profile fullUser of
             None \<Rightarrow> (Continue, matchingUsers, h')
           | Some prof \<Rightarrow>
               if \<not> includeInactive c \<and> status fullUser \<noteq> ''ACTIVE''
               then (Continue, matchingUsers, h')
               else if operator c = Pr then
                 (case prof (attribute c) of
                    None \<Rightarrow> (Continue, matchingUsers, h')
                  | Some Null \<Rightarrow> (Continue, matchingUsers, h')
                  | Some (Str s) \<Rightarrow>
                      if s \<noteq> [] then (Continue, matchingUsers @ [fullUser], h')
                      else (Continue, matchingUsers, h'))
               else
                 (case prof (attribute c) of
                    None \<Rightarrow> (Continue, matchingUsers, h')
                  | Some Null \<Rightarrow> (Continue, matchingUsers, h')
                  | Some (Str s) \<Rightarrow>
                      if isMatch (operator c) (toLowerCase s) (toLowerCase (search_value c))
                      then
                        (if length (matchingUsers @ [fullUser]) \<ge> limit_or_50 c
                         then (Break, matchingUsers @ [fullUser], h')
                         else (Continue, matchingUsers @ [fullUser], h'))
                      else (Continue, matchingUsers, h'))))"

text \<open>A \<open>for ... of\<close> loop over the candidates, in input order, with the given body.\<close>

fun for_candidates ::
  "(user \<Rightarrow> user list \<Rightarrow> history \<Rightarrow> control \<times> user list \<times> history) \<Rightarrow>
   user list \<Rightarrow> user list \<Rightarrow> history \<Rightarrow> user list \<times> history" where
  "for_candidates body [] matchingUsers h = (matchingUsers, h)"
| "for_candidates body (u # us) matchingUsers h =
     (case body u matchingUsers h of
        (Break, m', h') \<Rightarrow> (m', h')
      | (Continue, m', h') \<Rightarrow> for_candidates body us m' h')"

text \<open>Lines 817-903: the loop is chosen by the search method.\<close>

definition collect_matching ::
  "client \<Rightarrow> criterion \<Rightarrow> string \<Rightarrow> user list \<Rightarrow> history \<Rightarrow> user list \<times> history" where
  "collect_matching cl c searchMethod candidates h =
     (if searchMethod = formatted_search
      then for_candidates (status_filter_body cl c) candidates [] h
      else for_candidates (verify_body cl c) candidates [] h)"

text \<open>
  What the handler returns after validation: the error result \<open>Search failed: ...\<close> of the
  outer \<open>catch\<close>; the result \<open>No users data returned from Okta.\<close>; or the search
  response, whose text starts with the header line below and then narrates the method and
  lists \<open>matchingUsers\<close>.
\<close>

definition response_header :: "criterion \<Rightarrow> string" where
  "response_header c =
     ''Search Results for '' @ attribute c @ '' '' @ op_str (operator c) @ '' '' @
     dquote @ displayValue (attribute c) (search_value c) @ dquote"

datatype search_response =
    SearchFailed string
  | NoUsersData
  | SearchResults (r_header: string) (r_searchMethod: string) (r_matchingUsers: "user list")

text \<open>\<open>getOktaClient()\<close> raises when the environment is not configured; its outcome is
  the first argument.\<close>

definition find_users_by_attribute ::
  "error + client \<Rightarrow> criterion \<Rightarrow> history \<Rightarrow> search_response \<times> history" where
  "find_users_by_attribute oktaClient c h =
     (case oktaClient of
        Inl e \<Rightarrow> (SearchFailed (''Search failed: '' @ message e), h)
      | Inr cl \<Rightarrow>
          (case select_users cl c h of
             (Inl e, h1) \<Rightarrow> (SearchFailed (''Search failed: '' @ message e), h1)
           | (Inr (None, searchMethod), h1) \<Rightarrow> (NoUsersData, h1)
           | (Inr (Some users, searchMethod), h1) \<Rightarrow>
               (case collect_matching cl c searchMethod (candidateUsers users) h1 of
                  (matching, h2) \<Rightarrow>
                    (SearchResults (response_header c) searchMethod matching, h2))))"

section \<open>Bulk onboarding (the module \<open>onboarding\<close>, src/unnamed/part_000)\<close>

text \<open>
  The calls of the client that the onboarding handlers make. Of the user that
  \<open>createUser\<close> returns, only the \<open>id\<close> is read: \<open>None\<close> when it is \<open>undefined\<close>.
\<close>

definition call_createUser ::
  "client \<Rightarrow> new_user \<Rightarrow> history \<Rightarrow> (error + string option) \<times> history" where
  "call_createUser cl body h = (createUser cl h body, h @ [CreateUser body])"

definition call_activateUser ::
  "client \<Rightarrow> string \<Rightarrow> bool \<Rightarrow> history \<Rightarrow> (error + unit) \<times> history" where
  "call_activateUser cl uid sendEmail h =
     (activateUser cl h uid sendEmail, h @ [ActivateUser uid sendEmail])"

definition call_assignUserToGroup ::
  "client \<Rightarrow> string \<Rightarrow> string \<Rightarrow> history \<Rightarrow> (error + unit) \<times> history" where
  "call_assignUserToGroup cl groupId uid h =
     (assignUserToGroup cl h groupId uid, h @ [AssignUserToGroup groupId uid])"

definition call_assignUserToApplication ::
  "client \<Rightarrow> string \<Rightarrow> string \<Rightarrow> history \<Rightarrow> (error + unit) \<times> history" where
  "call_assignUserToApplication cl appId uid h =
     (assignUserToApplication cl h appId uid, h @ [AssignUserToApplication appId uid])"

text \<open>
  The two lists every stage accumulates, \<open>results.success\<close> and \<open>results.failed\<close>.
\<close>

record ('s, 'f) results =
  success :: "'s list"
  failed :: "'f list"

text \<open>
  What a stage handler returns: the error result of one of its \<open>isError\<close> returns, with
  its text, or the result that carries \<open>data\<close> (its text is a summary of the data).
\<close>

datatype 'd stage_result = StageError string | StageData 'd

subsection \<open>Stage 1: \<open>bulk_user_import\<close>\<close>

text \<open>
  A parsed CSV row maps a column name to its text. A column the row does not have and an
  empty cell are both falsy, and every use of a cell by the handler is a truthiness test
  or \<open>cell || default\<close>; both are written \<open>[]\<close>.
\<close>

type_synonym row = "string \<Rightarrow> string"

record import_success =
  s_id :: "string option"
  s_email :: string
  s_status :: string

record import_failure =
  f_email :: string
  f_reason :: string

type_synonym import_results = "(import_success, import_failure) results"

text \<open>\<open>a || d\<close> on strings, and the truthiness of \<open>createdUser.id\<close>.\<close>

definition truthy_id :: "string option \<Rightarrow> bool" where
  "truthy_id i = (case i of None \<Rightarrow> False | Some s \<Rightarrow> s \<noteq> [])"

definition id_str :: "string option \<Rightarrow> string" where
  "id_str i = (case i of None \<Rightarrow> [] | Some s \<Rightarrow> s)"

definition or_else :: "string \<Rightarrow> string \<Rightarrow> string" where
  "or_else a d = (if a = [] then d else a)"

text \<open>\<open>...(cell && {key: cell})\<close>: the optional profile field of the new user.\<close>

definition optional_field :: "string \<Rightarrow> string option" where
  "optional_field cell = (if cell = [] then None else Some cell)"

definition newUser :: "row \<Rightarrow> new_user" where
  "newUser userData =
     \<lparr>nu_firstName = userData ''firstName'', nu_lastName = userData ''lastName'',
      nu_email = userData ''email'', nu_login = userData ''email'',
      nu_department = optional_field (userData ''department''),
      nu_title = optional_field (userData ''title''),
      nu_mobilePhone = optional_field (userData ''mobilePhone'')\<rparr>"

text \<open>Lines 240-245: the default groups are assigned in order; the first failure raises
  out of the loop.\<close>

fun assign_default_groups ::
  "client \<Rightarrow> string list \<Rightarrow> string \<Rightarrow> history \<Rightarrow> (error + unit) \<times> history" where
  "assign_default_groups cl [] uid h = (Inr (), h)"
| "assign_default_groups cl (groupId # groups) uid h =
     (case call_assignUserToGroup cl groupId uid h of
        (Inl e, h') \<Rightarrow> (Inl e, h')
      | (Inr _, h') \<Rightarrow> assign_default_groups cl groups uid h')"

text \<open>Lines 212-252: the part of the row's \<open>try\<close> block after the validation of the
  row. It raises what the first failing call raises.\<close>

definition create_row_user ::
  "client \<Rightarrow> bool \<Rightarrow> bool \<Rightarrow> string list \<Rightarrow> row \<Rightarrow> history \<Rightarrow>
   (error + import_success) \<times> history" where
  "create_row_user cl activateUsers sendEmail defaultGroups userData h =
     (case call_createUser cl (newUser userData) h of
        (Inl e, h1) \<Rightarrow> (Inl e, h1)
      | (Inr createdUser_id, h1) \<Rightarrow>
          (case (if activateUsers \<and> truthy_id createdUser_id
                 then call_activateUser cl (id_str createdUser_id) sendEmail h1
                 else (Inr (), h1)) of
             (Inl e, h2) \<Rightarrow> (Inl e, h2)
           | (Inr _, h2) \<Rightarrow>
               (case (if defaultGroups \<noteq> [] \<and> truthy_id createdUser_id
                      then assign_default_groups cl defaultGroups (id_str createdUser_id) h2
                      else (Inr (), h2)) of
                  (Inl e, h3) \<Rightarrow> (Inl e, h3)
                | (Inr _, h3) \<Rightarrow>
                    (Inr \<lparr>s_id = createdUser_id, s_email = userData ''email'',
                          s_status = (if activateUsers then ''ACTIVE'' else ''STAGED'')\<rparr>,
                     h3))))"

definition missing_required_fields :: string where
  "missing_required_fields = ''Missing required fields (email, firstName, or lastName)''"

text \<open>Lines 200-259: the body of the loop over the rows, with its \<open>try\<close>/\<open>catch\<close>.\<close>

definition import_row ::
  "client \<Rightarrow> bool \<Rightarrow> bool \<Rightarrow> string list \<Rightarrow> row \<Rightarrow> import_results \<Rightarrow> history \<Rightarrow>
   import_results \<times> history" where
  "import_row cl activateUsers sendEmail defaultGroups userData res h =
     (if userData ''email'' = [] \<or> userData ''firstName'' = [] \<or> userData ''lastName'' = []
      then
        (res\<lparr>failed := failed res @
           [\<lparr>f_email = or_else (userData ''email'') ''Missing email'',
             f_reason = missing_required_fields\<rparr>]\<rparr>, h)
      else
        (case create_row_user cl activateUsers sendEmail defaultGroups userData h of
           (Inr created, h') \<Rightarrow> (res\<lparr>success := success res @ [created]\<rparr>, h')
         | (Inl e, h') \<Rightarrow>
             (res\<lparr>failed := failed res @
                [\<lparr>f_email = or_else (userData ''email'') ''Unknown'',
                  f_reason = message e\<rparr>]\<rparr>, h')))"

fun import_rows ::
  "client \<Rightarrow> bool \<Rightarrow> bool \<Rightarrow> string list \<Rightarrow> row list \<Rightarrow> import_results \<Rightarrow> history \<Rightarrow>
   import_results \<times> history" where
  "import_rows cl activateUsers sendEmail defaultGroups [] res h = (res, h)"
| "import_rows cl activateUsers sendEmail defaultGroups (userData # users) res h =
     (case import_row cl activateUsers sendEmail defaultGroups userData res h of
        (res', h') \<Rightarrow> import_rows cl activateUsers sendEmail defaultGroups users res' h')"

text \<open>
  The handler on validated arguments. \<open>Papa.parse\<close> is an external collaborator: \<open>papa\<close>
  gives the rows of the CSV text.
\<close>

definition bulk_user_import ::
  "error + client \<Rightarrow> (string \<Rightarrow> row list) \<Rightarrow> string \<Rightarrow> bool \<Rightarrow> bool \<Rightarrow> string list \<Rightarrow>
   history \<Rightarrow> import_results stage_result \<times> history" where
  "bulk_user_import oktaClient papa csvData activateUsers sendEmail defaultGroups h =
     (case oktaClient of
        Inl e \<Rightarrow> (StageError (''Failed to import users: '' @ message e), h)
      | Inr cl \<Rightarrow>
          if papa csvData = [] then (StageError ''No valid users found in CSV data.'', h)
          else
            (case import_rows cl activateUsers sendEmail defaultGroups (papa csvData)
                    \<lparr>success = [], failed = []\<rparr> h of
               (res, h') \<Rightarrow> (StageData res, h')))"

subsection \<open>Stage 2: \<open>assign_users_to_groups\<close>\<close>

text \<open>
  The attribute mapping is an object of objects; \<open>Object.entries\<close> walks it in insertion
  order, so it is a list of pairs, and a value mapping is looked up by key.
\<close>

type_synonym attribute_mapping = "(string \<times> (string \<rightharpoonup> string)) list"

text \<open>The entries pushed by the handler name the user under \<open>id\<close> or under \<open>userId\<close>,
  depending on the branch; both fields are kept.\<close>

record group_success =
  gs_id :: "string option"
  gs_userId :: "string option"
  gs_email :: "attr option"
  gs_assignedGroups :: "string list"
  gs_message :: "string option"

record group_failure =
  gf_id :: "string option"
  gf_userId :: "string option"
  gf_reason :: string

type_synonym group_results = "(group_success, group_failure) results"

text \<open>\<open>groupsToAssign.add(g)\<close> on a \<open>Set\<close>, which keeps insertion order.\<close>

definition set_add :: "string list \<Rightarrow> string \<Rightarrow> string list" where
  "set_add groups g = (if g \<in> set groups then groups else groups @ [g])"

text \<open>Lines 320-325: one entry of the mapping adds its group when the user's attribute
  is a non-empty string and the value mapping has a non-empty group for it.\<close>

definition add_mapped_group ::
  "(string \<rightharpoonup> attr) \<Rightarrow> string list \<Rightarrow> string \<times> (string \<rightharpoonup> string) \<Rightarrow> string list" where
  "add_mapped_group prof groups entry =
     (case prof (fst entry) of
        Some (Str userAttributeValue) \<Rightarrow>
          if userAttributeValue = [] then groups
          else (case snd entry userAttributeValue of
                  Some g \<Rightarrow> if g = [] then groups else set_add groups g
                | None \<Rightarrow> groups)
      | _ \<Rightarrow> groups)"

definition groupsToAssign :: "(string \<rightharpoonup> attr) \<Rightarrow> attribute_mapping \<Rightarrow> string list" where
  "groupsToAssign prof attributeMapping = foldl (add_mapped_group prof) [] attributeMapping"

text \<open>Lines 339-346: the groups are assigned in order; the first failure raises out of
  the loop, and the groups assigned before it are dropped with the local list.\<close>

fun assign_groups ::
  "client \<Rightarrow> string list \<Rightarrow> string \<Rightarrow> string list \<Rightarrow> history \<Rightarrow>
   (error + string list) \<times> history" where
  "assign_groups cl [] userId assignedGroups h = (Inr assignedGroups, h)"
| "assign_groups cl (groupId # groups) userId assignedGroups h =
     (case call_assignUserToGroup cl groupId userId h of
        (Inl e, h') \<Rightarrow> (Inl e, h')
      | (Inr _, h') \<Rightarrow> assign_groups cl groups userId (assignedGroups @ [groupId]) h')"

definition user_not_found :: string where
  "user_not_found = ''User not found or profile unavailable''"

text \<open>Lines 303-359: the body of the loop over the user ids.\<close>

definition assign_user ::
  "client \<Rightarrow> attribute_mapping \<Rightarrow> string \<Rightarrow> group_results \<Rightarrow> history \<Rightarrow>
   group_results \<times> history" where
  "assign_user cl attributeMapping userId res h =
     (case call_getUser cl userId h of
        (Inl e, h1) \<Rightarrow>
          (res\<lparr>failed := failed res @
             [\<lparr>gf_id = Some userId, gf_userId = None, gf_reason = message e\<rparr>]\<rparr>, h1)
      | (Inr None, h1) \<Rightarrow>
          (res\<lparr>failed := failed res @
             [\<lparr>gf_id = None, gf_userId = Some userId, gf_reason = user_not_found\<rparr>]\<rparr>, h1)
      | (Inr (Some u), h1) \<Rightarrow>
          (case profile u of
             None \<Rightarrow>
               (res\<lparr>failed := failed res @
                  [\<lparr>gf_id = None, gf_userId = Some userId, gf_reason = user_not_found\<rparr>]\<rparr>, h1)
           | Some prof \<Rightarrow>
               if groupsToAssign prof attributeMapping = [] then
                 (res\<lparr>success := success res @
                    [\<lparr>gs_id = Some userId, gs_userId = None, gs_email = prof ''email'',
                      gs_assignedGroups = [],
                      gs_message = Some ''No group mappings matched user attributes''\<rparr>]\<rparr>, h1)
               else
                 (case assign_groups cl (groupsToAssign prof attributeMapping) userId [] h1 of
                    (Inl e, h2) \<Rightarrow>
                      (res\<lparr>failed := failed res @
                         [\<lparr>gf_id = Some userId, gf_userId = None, gf_reason = message e\<rparr>]\<rparr>, h2)
                  | (Inr assignedGroups, h2) \<Rightarrow>
                      (res\<lparr>success := success res @
                         [\<lparr>gs_id = None, gs_userId = Some userId, gs_email = prof ''email'',
                           gs_assignedGroups = assignedGroups, gs_message = None\<rparr>]\<rparr>, h2))))"

fun assign_users ::
  "client \<Rightarrow> attribute_mapping \<Rightarrow> string list \<Rightarrow> group_results \<Rightarrow> history \<Rightarrow>
   group_results \<times> history" where
  "assign_users cl attributeMapping [] res h = (res, h)"
| "assign_users cl attributeMapping (userId # userIds) res h =
     (case assign_user cl attributeMapping userId res h of
        (res', h') \<Rightarrow> assign_users cl attributeMapping userIds res' h')"

definition assign_users_to_groups ::
  "error + client \<Rightarrow> string list \<Rightarrow> attribute_mapping \<Rightarrow> history \<Rightarrow>
   group_results stage_result \<times> history" where
  "assign_users_to_groups oktaClient userIds attributeMapping h =
     (case oktaClient of
        Inl e \<Rightarrow> (StageError (''Failed to assign users to groups: '' @ message e), h)
      | Inr cl \<Rightarrow>
          (case assign_users cl attributeMapping userIds \<lparr>success = [], failed = []\<rparr> h of
             (res, h') \<Rightarrow> (StageData res, h')))"

subsection \<open>Stage 3: \<open>provision_applications\<close>\<close>

record app_result =
  appId :: string
  app_status :: string
  app_reason :: "string option"

text \<open>
  An entry of the provisioning results. The entry for a user that was not found has no
  \<open>applications\<close> field (\<open>None\<close>); every other entry has one.
\<close>

record provision_entry =
  pe_userId :: string
  pe_email :: "attr option"
  pe_reason :: "string option"
  pe_applications :: "app_result list option"

type_synonym provision_results = "(provision_entry, provision_entry) results"

text \<open>Lines 430-452: every application is attempted, each in its own \<open>try\<close>.\<close>

fun grant_applications ::
  "client \<Rightarrow> string list \<Rightarrow> string \<Rightarrow> app_result list \<Rightarrow> bool \<Rightarrow> history \<Rightarrow>
   (app_result list \<times> bool) \<times> history" where
  "grant_applications cl [] userId applications hasFailure h = ((applications, hasFailure), h)"
| "grant_applications cl (a # apps) userId applications hasFailure h =
     (case call_assignUserToApplication cl a userId h of
        (Inr _, h') \<Rightarrow>
          grant_applications cl apps userId
            (applications @ [\<lparr>appId = a, app_status = ''assigned'', app_reason = None\<rparr>])
            hasFailure h'
      | (Inl e, h') \<Rightarrow>
          grant_applications cl apps userId
            (applications @
               [\<lparr>appId = a, app_status = ''failed'', app_reason = Some (message e)\<rparr>])
            True h')"

text \<open>Lines 408-466: the body of the loop over the user ids.\<close>

definition provision_user ::
  "client \<Rightarrow> string list \<Rightarrow> string \<Rightarrow> provision_results \<Rightarrow> history \<Rightarrow>
   provision_results \<times> history" where
  "provision_user cl applicationIds userId res h =
     (case call_getUser cl userId h of
        (Inl e, h1) \<Rightarrow>
          (res\<lparr>failed := failed res @
             [\<lparr>pe_userId = userId, pe_email = None, pe_reason = Some (message e),
               pe_applications = Some []\<rparr>]\<rparr>, h1)
      | (Inr None, h1) \<Rightarrow>
          (res\<lparr>failed := failed res @
             [\<lparr>pe_userId = userId, pe_email = None, pe_reason = Some user_not_found,
               pe_applications = None\<rparr>]\<rparr>, h1)
      | (Inr (Some u), h1) \<Rightarrow>
          (case profile u of
             None \<Rightarrow>
               (res\<lparr>failed := failed res @
                  [\<lparr>pe_userId = userId, pe_email = None, pe_reason = Some user_not_found,
                    pe_applications = None\<rparr>]\<rparr>, h1)
           | Some prof \<Rightarrow>
               (case grant_applications cl applicationIds userId [] False h1 of
                  ((applications, hasFailure), h2) \<Rightarrow>
                    if hasFailure then
                      (res\<lparr>failed := failed res @
                         [\<lparr>pe_userId = userId, pe_email = prof ''email'', pe_reason = None,
                           pe_applications = Some applications\<rparr>]\<rparr>, h2)
                    else
                      (res\<lparr>success := success res @
                         [\<lparr>pe_userId = userId, pe_email = prof ''email'', pe_reason = None,
                           pe_applications = Some applications\<rparr>]\<rparr>, h2))))"

fun provision_users ::
  "client \<Rightarrow> string list \<Rightarrow> string list \<Rightarrow> provision_results \<Rightarrow> history \<Rightarrow>
   provision_results \<times> history" where
  "provision_users cl applicationIds [] res h = (res, h)"
| "provision_users cl applicationIds (userId # userIds) res h =
     (case provision_user cl applicationIds userId res h of
        (res', h') \<Rightarrow> provision_users cl applicationIds userIds res' h')"

text \<open>
  Lines 478-482: the summary reads \<open>user.applications.filter\<close> of every failed entry. On
  an entry without \<open>applications\<close> this raises a \<open>TypeError\<close> (the message is the
  engine's), which the outer \<open>catch\<close> of the handler turns into its error result.
\<close>

definition undefined_filter :: string where
  "undefined_filter =
     ''Cannot read properties of undefined (reading '' @ [CHR 0x27] @ ''filter'' @
     [CHR 0x27] @ '')''"

definition provision_applications ::
  "error + client \<Rightarrow> string list \<Rightarrow> string list \<Rightarrow> history \<Rightarrow>
   provision_results stage_result \<times> history" where
  "provision_applications oktaClient userIds applicationIds h =
     (case oktaClient of
        Inl e \<Rightarrow> (StageError (''Failed to provision applications: '' @ message e), h)
      | Inr cl \<Rightarrow>
          (case provision_users cl applicationIds userIds \<lparr>success = [], failed = []\<rparr> h of
             (res, h') \<Rightarrow>
               if list_ex (\<lambda>entry. pe_applications entry = None) (failed res)
               then (StageError (''Failed to provision applications: '' @ undefined_filter), h')
               else (StageData res, h')))"

section \<open>Validation\<close>

text \<open>
  The schemas are declared with the zod library, an external collaborator. A failed
  \<open>parse\<close> raises a \<open>ZodError\<close>, an \<open>Error\<close> whose message is the library's rendering of
  the list of issues found; an issue names the path of the offending field and a cause.
  The rendering is the parameter \<open>zm\<close> of every function that validates.
\<close>

record zod_issue =
  path :: "string list"
  cause :: string

datatype jvalue = JStr string | JNum int | JBool bool | JNull | JArr | JObj

type_synonym raw = "string \<rightharpoonup> jvalue"

fun received :: "jvalue \<Rightarrow> string" where
  "received (JStr s) = ''string''"
| "received (JNum n) = ''number''"
| "received (JBool b) = ''boolean''"
| "received JNull = ''null''"
| "received JArr = ''array''"
| "received JObj = ''object''"

text \<open>\<open>z.string().min(1, msg)\<close> on the field at \<open>p\<close> of an untyped object.\<close>

definition z_string_min1 :: "string list \<Rightarrow> string \<Rightarrow> jvalue option \<Rightarrow> zod_issue list + string" where
  "z_string_min1 p msg v =
     (case v of
        None \<Rightarrow> Inl [\<lparr>path = p, cause = ''Required''\<rparr>]
      | Some (JStr s) \<Rightarrow> if s = [] then Inl [\<lparr>path = p, cause = msg\<rparr>] else Inr s
      | Some other \<Rightarrow>
          Inl [\<lparr>path = p, cause = ''Expected string, received '' @ received other\<rparr>])"

text \<open>\<open>userSchemas.getUser.parse\<close>\<close>

definition getUser_parse :: "(zod_issue list \<Rightarrow> string) \<Rightarrow> raw \<Rightarrow> error + string" where
  "getUser_parse zm parameters =
     (case z_string_min1 [''userId''] ''User ID is required'' (parameters ''userId'') of
        Inl issues \<Rightarrow> Inl (Error (zm issues))
      | Inr userId \<Rightarrow> Inr userId)"

text \<open>\<open>String(n)\<close> for a natural number.\<close>

fun show_nat :: "nat \<Rightarrow> string" where
  "show_nat n =
     (if n < 10 then [char_of (48 + n)]
      else show_nat (n div 10) @ [char_of (48 + n mod 10)])"

declare show_nat.simps [simp del]

text \<open>
  The schemas of the stage handlers, on the typed values the workflow passes to them:
  the issues of \<open>z.array(z.string().min(1, msg))\<close> at the field \<open>name\<close>, for user ids that
  may be \<open>undefined\<close> and for application ids.
\<close>

fun id_issues :: "string \<Rightarrow> string \<Rightarrow> nat \<Rightarrow> string option list \<Rightarrow> zod_issue list" where
  "id_issues name msg i [] = []"
| "id_issues name msg i (None # ids) =
     \<lparr>path = [name, show_nat i], cause = ''Required''\<rparr> # id_issues name msg (Suc i) ids"
| "id_issues name msg i (Some s # ids) =
     (if s = [] then \<lparr>path = [name, show_nat i], cause = msg\<rparr> # id_issues name msg (Suc i) ids
      else id_issues name msg (Suc i) ids)"

definition userIds_issues :: "string option list \<Rightarrow> zod_issue list" where
  "userIds_issues ids = id_issues ''userIds'' ''User ID is required'' 0 ids"

definition applicationIds_issues :: "string list \<Rightarrow> zod_issue list" where
  "applicationIds_issues apps =
     id_issues ''applicationIds'' ''Application ID is required'' 0 (map Some apps)"

definition csvData_issues :: "string \<Rightarrow> zod_issue list" where
  "csvData_issues csvData =
     (if csvData = [] then [\<lparr>path = [''csvData''], cause = ''CSV data is required''\<rparr>] else [])"

section \<open>The onboarding workflow (\<open>run_onboarding_workflow\<close>)\<close>

record workflow_summary =
  totalProcessed :: nat
  successfullyOnboarded :: nat
  failedUsers :: nat
  groupsAssigned :: nat
  applicationsProvisioned :: nat

record workflow =
  userImport :: import_results
  groupAssignment :: group_results
  applicationProvisioning :: provision_results
  summary :: workflow_summary

text \<open>
  What the workflow returns: the error result of its \<open>catch\<close>; the early return when no
  user was created, with its text and \<open>data.userImport\<close> (\<open>None\<close> when the import returned
  no data); or the complete report with its text and data.
\<close>

datatype workflow_result =
    WorkflowError string
  | NoUsersCreated string "import_results option"
  | WorkflowComplete string workflow

definition nl :: string where
  "nl = [CHR 0x0A]"

text \<open>The bullet character of the summary, in UTF-8.\<close>

definition bullet :: string where
  "bullet = [CHR 0xE2, CHR 0x80, CHR 0xA2]"

definition group_section :: "attribute_mapping \<Rightarrow> group_results \<Rightarrow> string" where
  "group_section groupMappings res =
     (if groupMappings \<noteq> [] then
        bullet @ '' Group Assignment:'' @ nl @
        ''  - Users assigned to groups: '' @ show_nat (length (success res)) @ nl @
        ''  - Failed group assignments: '' @ show_nat (length (failed res))
      else bullet @ '' Group Assignment: Not configured'')"

definition application_section :: "string list \<Rightarrow> provision_results \<Rightarrow> string" where
  "application_section applicationIds res =
     (if applicationIds \<noteq> [] then
        bullet @ '' Application Provisioning:'' @ nl @
        ''  - Users provisioned with applications: '' @ show_nat (length (success res)) @ nl @
        ''  - Failed application provisioning: '' @ show_nat (length (failed res))
      else bullet @ '' Application Provisioning: Not configured'')"

definition import_section :: "workflow_summary \<Rightarrow> string" where
  "import_section sm =
     ''Onboarding Workflow Complete:'' @ nl @ nl @
     ''- User Import:'' @ nl @
     ''  - Processed '' @ show_nat (totalProcessed sm) @ '' users'' @ nl @
     ''  - Successfully created: '' @ show_nat (successfullyOnboarded sm) @ nl @
     ''  - Failed: '' @ show_nat (failedUsers sm)"

definition overall_line :: "attribute_mapping \<Rightarrow> string list \<Rightarrow> workflow_summary \<Rightarrow> string" where
  "overall_line groupMappings applicationIds sm =
     ''Overall, successfully onboarded '' @ show_nat (successfullyOnboarded sm) @
     '' out of '' @ show_nat (totalProcessed sm) @ '' users with '' @
     (if groupMappings \<noteq> [] then ''attribute-based group assignment''
      else ''default groups only'') @
     '' and '' @
     (if applicationIds \<noteq> [] then ''application provisioning''
      else ''no application provisioning'') @
     ''.''"

text \<open>Lines 569-584: the text of the report, four paragraphs separated by empty lines.\<close>

definition summary_text :: "attribute_mapping \<Rightarrow> string list \<Rightarrow> workflow \<Rightarrow> string" where
  "summary_text groupMappings applicationIds w =
     import_section (summary w) @ nl @ nl @
     group_section groupMappings (groupAssignment w) @ nl @ nl @
     application_section applicationIds (applicationProvisioning w) @ nl @ nl @
     overall_line groupMappings applicationIds (summary w)"

definition no_users_created :: string where
  "no_users_created = ''No users were successfully created during the onboarding workflow.''"

definition workflow_failed :: "string \<Rightarrow> string" where
  "workflow_failed msg = ''Failed to complete onboarding workflow: '' @ msg"

text \<open>Reading \<open>.success\<close> of the \<open>data\<close> of a stage result that has none raises a
  \<open>TypeError\<close> (the message is the engine's).\<close>

definition undefined_success :: string where
  "undefined_success =
     ''Cannot read properties of undefined (reading '' @ [CHR 0x27] @ ''success'' @
     [CHR 0x27] @ '')''"

text \<open>
  Lines 532-541, step 2: the group assignment runs only with a non-empty mapping. The
  handler validates its parameters first (outside its \<open>try\<close>), so a created user without
  a usable id raises here. The result is the stage's \<open>data\<close>, \<open>None\<close> when the handler
  returned an error result.
\<close>

definition group_stage ::
  "(zod_issue list \<Rightarrow> string) \<Rightarrow> error + client \<Rightarrow> string option list \<Rightarrow> attribute_mapping \<Rightarrow>
   history \<Rightarrow> (error + group_results option) \<times> history" where
  "group_stage zm oktaClient createdUserIds groupMappings h =
     (if groupMappings \<noteq> [] then
        (if userIds_issues createdUserIds \<noteq> []
         then (Inl (Error (zm (userIds_issues createdUserIds))), h)
         else
           (case assign_users_to_groups oktaClient (map id_str createdUserIds) groupMappings h of
              (StageData res, h') \<Rightarrow> (Inr (Some res), h')
            | (StageError msg, h') \<Rightarrow> (Inr None, h')))
      else (Inr (Some \<lparr>success = [], failed = []\<rparr>), h))"

text \<open>Lines 543-552, step 3: the provisioning runs only with a non-empty list of
  applications.\<close>

definition application_stage ::
  "(zod_issue list \<Rightarrow> string) \<Rightarrow> error + client \<Rightarrow> string option list \<Rightarrow> string list \<Rightarrow>
   history \<Rightarrow> (error + provision_results option) \<times> history" where
  "application_stage zm oktaClient createdUserIds applicationIds h =
     (if applicationIds \<noteq> [] then
        (if userIds_issues createdUserIds @ applicationIds_issues applicationIds \<noteq> []
         then (Inl (Error (zm (userIds_issues createdUserIds @
                                 applicationIds_issues applicationIds))), h)
         else
           (case provision_applications oktaClient (map id_str createdUserIds)
                   applicationIds h of
              (StageData res, h') \<Rightarrow> (Inr (Some res), h')
            | (StageError msg, h') \<Rightarrow> (Inr None, h')))
      else (Inr (Some \<lparr>success = [], failed = []\<rparr>), h))"

text \<open>Lines 554-589: the report. Without the data of stage 2 or stage 3 the summary
  raises.\<close>

definition compile_workflow ::
  "attribute_mapping \<Rightarrow> string list \<Rightarrow> import_results \<Rightarrow> group_results option \<Rightarrow>
   provision_results option \<Rightarrow> workflow_result" where
  "compile_workflow groupMappings applicationIds imported groupData appData =
     (case groupData of
        None \<Rightarrow> WorkflowError (workflow_failed undefined_success)
      | Some groupResults \<Rightarrow>
          (case appData of
             None \<Rightarrow> WorkflowError (workflow_failed undefined_success)
           | Some appResults \<Rightarrow>
               (let w = \<lparr>userImport = imported, groupAssignment = groupResults,
                          applicationProvisioning = appResults,
                          summary =
                            \<lparr>totalProcessed =
                               length (success imported) + length (failed imported),
                             successfullyOnboarded = length (success imported),
                             failedUsers = length (failed imported),
                             groupsAssigned = length (success groupResults),
                             applicationsProvisioned = length (success appResults)\<rparr>\<rparr>
                in WorkflowComplete (summary_text groupMappings applicationIds w) w)))"

text \<open>
  Lines 512-601, the \<open>try\<close> block of the handler with its \<open>catch\<close>. The stage handlers
  are called as functions of the same module, each validating what it is passed; the
  import is passed values that its schema accepts whenever the workflow's own schema
  accepted them.
\<close>

definition workflow_try ::
  "(zod_issue list \<Rightarrow> string) \<Rightarrow> error + client \<Rightarrow> (string \<Rightarrow> row list) \<Rightarrow>
   string \<Rightarrow> bool \<Rightarrow> string list \<Rightarrow> attribute_mapping \<Rightarrow> string list \<Rightarrow> bool \<Rightarrow>
   history \<Rightarrow> workflow_result \<times> history" where
  "workflow_try zm oktaClient papa csvData activateUsers defaultGroups
     groupMappings applicationIds sendWelcomeEmail h =
     (case bulk_user_import oktaClient papa csvData activateUsers sendWelcomeEmail
             defaultGroups h of
        (StageError msg, h1) \<Rightarrow> (NoUsersCreated no_users_created None, h1)
      | (StageData imported, h1) \<Rightarrow>
          if success imported = []
          then (NoUsersCreated no_users_created (Some imported), h1)
          else
            (case group_stage zm oktaClient (map s_id (success imported))
                    groupMappings h1 of
               (Inl e, h2) \<Rightarrow> (WorkflowError (workflow_failed (message e)), h2)
             | (Inr groupData, h2) \<Rightarrow>
                 (case application_stage zm oktaClient (map s_id (success imported))
                         applicationIds h2 of
                    (Inl e, h3) \<Rightarrow> (WorkflowError (workflow_failed (message e)), h3)
                  | (Inr appData, h3) \<Rightarrow>
                      (compile_workflow groupMappings applicationIds imported
                         groupData appData, h3))))"

text \<open>
  The handler (lines 502-602) on arguments of the types of its schema. Its own validation
  (line 510) is outside the \<open>try\<close>: of such arguments it rejects exactly an empty
  \<open>csvData\<close>, and then the handler raises the validation failure. Otherwise it returns
  what the \<open>try\<close> block returns.
\<close>

definition run_onboarding_workflow ::
  "(zod_issue list \<Rightarrow> string) \<Rightarrow> error + client \<Rightarrow> (string \<Rightarrow> row list) \<Rightarrow>
   string \<Rightarrow> bool \<Rightarrow> string list \<Rightarrow> attribute_mapping \<Rightarrow> string list \<Rightarrow> bool \<Rightarrow>
   history \<Rightarrow> (error + workflow_result) \<times> history" where
  "run_onboarding_workflow zm oktaClient papa csvData activateUsers defaultGroups
     groupMappings applicationIds sendWelcomeEmail h =
     (if csvData_issues csvData \<noteq> []
      then (Inl (Error (zm (csvData_issues csvData))), h)
      else
        (case workflow_try zm oktaClient papa csvData activateUsers defaultGroups
                groupMappings applicationIds sendWelcomeEmail h of
           (r, h') \<Rightarrow> (Inr r, h')))"

text \<open>
  The entity an entry of a stage's results is about: the user id, which the entries of
  stage 2 carry under \<open>userId\<close> or under \<open>id\<close>; and the keys that succeeded in stage 1,
  the ids of the created users.
\<close>

definition gs_key :: "group_success \<Rightarrow> string" where
  "gs_key entry = (case gs_userId entry of Some k \<Rightarrow> k | None \<Rightarrow> id_str (gs_id entry))"

definition gf_key :: "group_failure \<Rightarrow> string" where
  "gf_key entry = (case gf_userId entry of Some k \<Rightarrow> k | None \<Rightarrow> id_str (gf_id entry))"

definition group_keys :: "group_results \<Rightarrow> string set" where
  "group_keys res = gs_key ` set (success res) \<union> gf_key ` set (failed res)"

definition provision_keys :: "provision_results \<Rightarrow> string set" where
  "provision_keys res = pe_userId ` set (success res) \<union> pe_userId ` set (failed res)"

definition created_keys :: "import_results \<Rightarrow> string set" where
  "created_keys res = (id_str \<circ> s_id) ` set (success res)"

text \<open>
  The user a directory call is about, and the histories that extend \<open>h\<close> by calls about
  users of a given set only.
\<close>

fun call_user :: "call \<Rightarrow> string option" where
  "call_user (ListUsers p) = None"
| "call_user (GetUser u) = Some u"
| "call_user (CreateUser body) = None"
| "call_user (ActivateUser u sendEmail) = Some u"
| "call_user (AssignUserToGroup g u) = Some u"
| "call_user (AssignUserToApplication a u) = Some u"

definition about :: "string set \<Rightarrow> call list \<Rightarrow> bool" where
  "about keys calls =
     list_all (\<lambda>c. case call_user c of Some u \<Rightarrow> u \<in> keys | None \<Rightarrow> False) calls"

definition extends_about :: "string set \<Rightarrow> history \<Rightarrow> history \<Rightarrow> bool" where
  "extends_about keys h h' =
     (take (length h) h' = h \<and> about keys (drop (length h) h'))"

section \<open>The dispatcher (src/index.ts)\<close>

text \<open>
  The result of a tool call: the text blocks of \<open>content\<close>, \<open>isError\<close> (absent in the
  source when false) and the optional \<open>data\<close> that some handlers attach.
\<close>

record 'd tool_result =
  content :: "string list"
  isError :: bool
  data :: "'d option"

definition error_result :: "string \<Rightarrow> 'd tool_result" where
  "error_result t = \<lparr>content = [t], isError = True, data = None\<rparr>"

definition text_result :: "string \<Rightarrow> 'd tool_result" where
  "text_result t = \<lparr>content = [t], isError = False, data = None\<rparr>"

text \<open>
  A handler takes \<open>request.parameters\<close> and either raises or returns a result; \<open>'s\<close> is
  what it acts on (the history of directory calls, for the handlers of this repository).
\<close>

type_synonym ('d, 's) handler = "raw \<Rightarrow> 's \<Rightarrow> (error + 'd tool_result) \<times> 's"

text \<open>
  Every handler of \<open>HANDLERS\<close> has one shape: its first statement is
  \<open>schema.parse(request.parameters)\<close>, outside any \<open>try\<close>; the rest is a \<open>try\<close> whose
  \<open>catch\<close> returns an error result. So a handler raises exactly what its validation
  raises.
\<close>

definition validated ::
  "(raw \<Rightarrow> error + 'a) \<Rightarrow> ('a \<Rightarrow> 's \<Rightarrow> 'd tool_result \<times> 's) \<Rightarrow> ('d, 's) handler" where
  "validated parse body parameters s =
     (case parse parameters of
        Inl e \<Rightarrow> (Inl e, s)
      | Inr args \<Rightarrow> (case body args s of (result, s') \<Rightarrow> (Inr result, s')))"

text \<open>Reading \<open>.profile\<close> of a user that is \<open>undefined\<close> raises a \<open>TypeError\<close> (the
  message is the engine's).\<close>

definition undefined_profile :: string where
  "undefined_profile =
     ''Cannot read properties of undefined (reading '' @ [CHR 0x27] @ ''profile'' @
     [CHR 0x27] @ '')''"

text \<open>
  \<open>get_user\<close> (src/tools/users.ts, lines 343-422) after its validation. The rendering of
  the user's details is the parameter \<open>formatUser\<close>.
\<close>

definition get_user_body ::
  "error + client \<Rightarrow> (user \<Rightarrow> string) \<Rightarrow> string \<Rightarrow> history \<Rightarrow> 'd tool_result \<times> history" where
  "get_user_body oktaClient formatUser userId h =
     (case oktaClient of
        Inl e \<Rightarrow> (error_result (''Failed to get user: '' @ message e), h)
      | Inr cl \<Rightarrow>
          (case call_getUser cl userId h of
             (Inl e, h') \<Rightarrow> (error_result (''Failed to get user: '' @ message e), h')
           | (Inr None, h') \<Rightarrow>
               (error_result (''Failed to get user: '' @ undefined_profile), h')
           | (Inr (Some u), h') \<Rightarrow>
               (case profile u of
                  None \<Rightarrow>
                    (error_result (''Failed to get user: '' @ ''User profile is undefined''), h')
                | Some prof \<Rightarrow> (text_result (formatUser u), h'))))"

definition get_user ::
  "(zod_issue list \<Rightarrow> string) \<Rightarrow> error + client \<Rightarrow> (user \<Rightarrow> string) \<Rightarrow> ('d, history) handler" where
  "get_user zm oktaClient formatUser =
     validated (getUser_parse zm) (get_user_body oktaClient formatUser)"

text \<open>
  The handler of tool calls set up by \<open>startServer\<close> (lines 38-65). \<open>HANDLERS name\<close> is
  the property the object \<open>HANDLERS\<close> has under \<open>name\<close>, if \<open>name in HANDLERS\<close>. The
  messages passed to \<open>log\<close> are collected in order. First the \<open>try\<close> block:
\<close>

definition callTool_try ::
  "(string \<rightharpoonup> ('d, 's) handler) \<Rightarrow> string \<Rightarrow> raw option \<Rightarrow> string list \<times> 's \<Rightarrow>
   (error + 'd tool_result) \<times> string list \<times> 's" where
  "callTool_try HANDLERS toolName arguments w =
     (case w of (lg, s) \<Rightarrow>
        (case HANDLERS toolName of
           None \<Rightarrow> (Inl (Error (''Unknown tool: '' @ toolName)), lg, s)
         | Some handler \<Rightarrow>
             (case handler (case arguments of None \<Rightarrow> Map.empty | Some a \<Rightarrow> a) s of
                (Inl e, s') \<Rightarrow>
                  (Inl e, lg @ [''Executing handler for tool: '' @ toolName], s')
              | (Inr result, s') \<Rightarrow>
                  (Inr result,
                   lg @ [''Executing handler for tool: '' @ toolName,
                         ''Handler execution completed for: '' @ toolName], s'))))"

text \<open>and the whole handler, with its \<open>catch\<close>:\<close>

definition callTool ::
  "(string \<rightharpoonup> ('d, 's) handler) \<Rightarrow> string \<Rightarrow> raw option \<Rightarrow> string list \<times> 's \<Rightarrow>
   'd tool_result \<times> string list \<times> 's" where
  "callTool HANDLERS toolName arguments w =
     (case callTool_try HANDLERS toolName arguments
             (fst w @ [''Received tool call: '' @ toolName], snd w) of
        (Inr result, lg, s) \<Rightarrow> (result, lg, s)
      | (Inl e, lg, s) \<Rightarrow>
          (error_result (''Error: '' @ message e),
           lg @ [''Error handling tool call: '' @ message e], s))"

text \<open>
  The handler of tool calls of the single-file draft of the server (src/index.ts, lines
  752-768): a handler of \<open>toolHandlers\<close> takes the arguments as they come, and the \<open>catch\<close>
  raises again, with the name of the tool put before the message.
\<close>

definition callTool_draft ::
  "(string \<rightharpoonup> (raw option \<Rightarrow> 's \<Rightarrow> (error + 'r) \<times> 's)) \<Rightarrow> string \<Rightarrow> raw option \<Rightarrow> 's \<Rightarrow>
   (error + 'r) \<times> 's" where
  "callTool_draft toolHandlers name args s =
     (case (case toolHandlers name of
              None \<Rightarrow> (Inl (Error (''Unknown tool: '' @ name)), s)
            | Some handler \<Rightarrow> handler args s) of
        (Inr result, s') \<Rightarrow> (Inr result, s')
      | (Inl e, s') \<Rightarrow>
          (Inl (Error (''Error executing tool '' @ name @ '': '' @ message e)), s'))"

section \<open>Example directories\<close>

text \<open>
  Three listed users, and the full record the directory returns for an id: an active user
  of the Engineering department.
\<close>

definition engineering_users :: "user list" where
  "engineering_users =
     [\<lparr>user_id = ''u1'', status = ''ACTIVE'', profile = None\<rparr>,
      \<lparr>user_id = ''u2'', status = ''ACTIVE'', profile = None\<rparr>,
      \<lparr>user_id = ''u3'', status = ''ACTIVE'', profile = None\<rparr>]"

definition engineer :: "string \<Rightarrow> user" where
  "engineer uid =
     \<lparr>user_id = uid, status = ''ACTIVE'',
      profile = Some [''department'' \<mapsto> Str ''Engineering'']\<rparr>"

text \<open>A directory that rejects every search expression with a generic failure and
  answers the unfiltered listing.\<close>

definition scan_only_client :: client where
  "scan_only_client =
     \<lparr>listUsers = (\<lambda>h p. if p_search p = None then Inr (Some engineering_users)
                          else Inl (Error ''Invalid search criteria'')),
      getUser = (\<lambda>h uid. Inr (Some (engineer uid))),
      createUser = (\<lambda>h body. Inl (Error ''not available'')),
      activateUser = (\<lambda>h uid s. Inl (Error ''not available'')),
      assignUserToGroup = (\<lambda>h g uid. Inl (Error ''not available'')),
      assignUserToApplication = (\<lambda>h a uid. Inl (Error ''not available''))\<rparr>"

text \<open>A directory that does not support the operator of a \<open>profile.\<close> expression,
  answers every other listing, and cannot fetch the user \<open>u2\<close>.\<close>

definition free_text_client :: client where
  "free_text_client =
     \<lparr>listUsers = (\<lambda>h p. case p_search p of
                            None \<Rightarrow> Inr (Some engineering_users)
                          | Some q \<Rightarrow>
                              if startsWith q ''profile.''
                              then Inl (Error ''Invalid search: operator is not supported'')
                              else Inr (Some engineering_users)),
      getUser = (\<lambda>h uid. if uid = ''u2'' then Inl (Error ''Not found'')
                          else Inr (Some (engineer uid))),
      createUser = (\<lambda>h body. Inl (Error ''not available'')),
      activateUser = (\<lambda>h uid s. Inl (Error ''not available'')),
      assignUserToGroup = (\<lambda>h g uid. Inl (Error ''not available'')),
      assignUserToApplication = (\<lambda>h a uid. Inl (Error ''not available''))\<rparr>"

definition department_criterion :: "operator \<Rightarrow> criterion" where
  "department_criterion oper =
     \<lparr>attribute = ''department'', search_value = ''engineering'', operator = oper,
      limit = 1, includeInactive = False\<rparr>"

text \<open>A rendering of the issues of a failed validation: path, cause.\<close>

definition issue_lines :: "zod_issue list \<Rightarrow> string" where
  "issue_lines issues =
     concat (map (\<lambda>i. concat (path i) @ '': '' @ cause i @ ''; '') issues)"

text \<open>A handler table with \<open>get_user\<close>, and the empty table of the draft.\<close>

definition example_handlers :: "string \<rightharpoonup> (unit, history) handler" where
  "example_handlers = [''get_user'' \<mapsto> get_user issue_lines (Inr scan_only_client) user_id]"

definition no_handlers ::
  "string \<rightharpoonup> (raw option \<Rightarrow> history \<Rightarrow> (error + unit tool_result) \<times> history)" where
  "no_handlers = Map.empty"

text \<open>
  Three rows of a CSV file, the second without \<open>lastName\<close>, and a parser that yields
  given rows.
\<close>

definition row_of :: "(string \<times> string) list \<Rightarrow> row" where
  "row_of cells k = (case map_of cells k of Some v \<Rightarrow> v | None \<Rightarrow> [])"

definition ann_row :: row where
  "ann_row = row_of [(''email'', ''ann@x.com''), (''firstName'', ''Ann''), (''lastName'', ''Lee'')]"

definition bob_row :: row where
  "bob_row = row_of [(''email'', ''bob@x.com''), (''firstName'', ''Bob'')]"

definition cy_row :: row where
  "cy_row = row_of [(''email'', ''cy@x.com''), (''firstName'', ''Cy''), (''lastName'', ''Day'')]"

definition parsed_as :: "row list \<Rightarrow> string \<Rightarrow> row list" where
  "parsed_as rows csvData = rows"

text \<open>
  A directory that creates every user under the id \<open>id-\<close> followed by the email, cannot
  activate Cy, has no user \<open>ghost\<close>, and does not grant the application \<open>app2\<close>.
\<close>

definition onboarding_client :: client where
  "onboarding_client =
     \<lparr>listUsers = (\<lambda>h p. Inl (Error ''not available'')),
      getUser = (\<lambda>h uid. if uid = ''ghost'' then Inl (Error ''Not found'')
                          else Inr (Some (engineer uid))),
      createUser = (\<lambda>h body. Inr (Some (''id-'' @ nu_email body))),
      activateUser = (\<lambda>h uid s. if uid = ''id-cy@x.com''
                                then Inl (Error ''Activation failed'') else Inr ()),
      assignUserToGroup = (\<lambda>h g uid. Inr ()),
      assignUserToApplication = (\<lambda>h a uid. if a = ''app2'' then Inl (Error ''Not licensed'')
                                            else Inr ())\<rparr>"

definition engineering_mapping :: attribute_mapping where
  "engineering_mapping = [(''department'', [''Engineering'' \<mapsto> ''G1''])]"

section \<open>Properties of the search\<close>

text \<open>
  C3, as the spec states it, fails: when the formatted search fails with a message that
  does not contain \<open>operator is not supported\<close>, the free-text search is never attempted.
  Here the directory rejects the search expression with \<open>Invalid search criteria\<close>; the
  only calls made are the formatted search and the unfiltered listing of 200 users, and
  the method reported is client-side filtering.
\<close>

theorem other_failure_skips_free_text:
  "listUsers scan_only_client [] (searchParams (department_criterion Eq)) =
     Inl (Error ''Invalid search criteria'') \<and>
   select_users scan_only_client (department_criterion Eq) [] =
     (Inr (Some engineering_users, client_side_filtering),
      [ListUsers (searchParams (department_criterion Eq)), ListUsers basicParams]) \<and>
   ListUsers (freeTextParams (department_criterion Eq)) \<notin>
     set (snd (select_users scan_only_client (department_criterion Eq) []))"
  by (simp add: select_users_def call_listUsers_def searchParams_def freeTextParams_def
      basicParams_def limit_or_50_def searchQuery_def dquote_def scan_only_client_def
      department_criterion_def)

text \<open>
  C3, amended: when the formatted search (tier 1) fails, the calls made by the selector
  are determined by the failure message. If it contains \<open>operator is not supported\<close>, the
  free-text search (tier 2) is attempted next, and the unfiltered listing (tier 3) follows
  only when the free-text search failed too. For every other failure the selector goes
  straight to the unfiltered listing and the free-text search is not attempted.
\<close>

theorem select_users_fallback_order:
  assumes "listUsers cl h (searchParams c) = Inl e"
  shows "snd (select_users cl c h) =
     (if includes_str (message e) ''operator is not supported'' then
        (case listUsers cl (h @ [ListUsers (searchParams c)]) (freeTextParams c) of
           Inr users \<Rightarrow> h @ [ListUsers (searchParams c), ListUsers (freeTextParams c)]
         | Inl freeTextError \<Rightarrow>
             h @ [ListUsers (searchParams c), ListUsers (freeTextParams c),
                  ListUsers basicParams])
      else h @ [ListUsers (searchParams c), ListUsers basicParams])"
  using assms by (simp add: select_users_def call_listUsers_def split: sum.splits)

theorem select_users_fallback_order_witness:
  "listUsers free_text_client [] (searchParams (department_criterion Eq)) =
     Inl (Error ''Invalid search: operator is not supported'') \<and>
   snd (select_users free_text_client (department_criterion Eq) []) =
     [ListUsers (searchParams (department_criterion Eq)),
      ListUsers (freeTextParams (department_criterion Eq))]"
proof -
  have failed: "listUsers free_text_client [] (searchParams (department_criterion Eq)) =
      Inl (Error ''Invalid search: operator is not supported'')"
    by (simp add: free_text_client_def department_criterion_def searchParams_def
        searchQuery_def)
  have second: "listUsers free_text_client [ListUsers (searchParams (department_criterion Eq))]
      (freeTextParams (department_criterion Eq)) = Inr (Some engineering_users)"
    by (simp add: free_text_client_def department_criterion_def freeTextParams_def)
  show ?thesis
    using select_users_fallback_order [OF failed] failed second by simp
qed

text \<open>
  C4: with the operator \<open>pr\<close> the verification loop does not stop at the limit. The
  directory holds three active users whose \<open>department\<close> is present, the search is served
  by client-side filtering, and the limit is 1: all three users are returned. With the
  operator \<open>eq\<close> the same search stops at the first verified match.
\<close>

theorem pr_ignores_limit:
  "limit (department_criterion Pr) = 1 \<and>
   fst (find_users_by_attribute (Inr scan_only_client) (department_criterion Pr) []) =
     SearchResults (response_header (department_criterion Pr)) client_side_filtering
       [engineer ''u1'', engineer ''u2'', engineer ''u3''] \<and>
   fst (find_users_by_attribute (Inr scan_only_client) (department_criterion Eq) []) =
     SearchResults (response_header (department_criterion Eq)) client_side_filtering
       [engineer ''u1'']"
  by (simp add: find_users_by_attribute_def select_users_def call_listUsers_def
      call_getUser_def searchParams_def basicParams_def collect_matching_def
      candidateUsers_def verify_body_def limit_or_50_def formatted_search_def
      client_side_filtering_def isMatch_def toLowerCase_def toLowerCase_char_def
      scan_only_client_def department_criterion_def engineering_users_def engineer_def)

text \<open>
  C5: the attribute \<open>firstName\<close> is in the fixed list, but the lookup lower-cases the
  attribute and compares it with the entries as written, so \<open>firstName\<close> is not
  recognised and its search value is echoed unmasked, where masking gives \<open>a***e\<close>.
\<close>

theorem firstName_not_masked:
  "''firstName'' \<in> set piiAttributes \<and>
   \<not> isPIIAttribute ''firstName'' \<and>
   displayValue ''firstName'' ''alice'' = ''alice'' \<and>
   maskValue ''alice'' = ''a***e''"
  by (simp add: displayValue_def isPIIAttribute_def piiAttributes_def toLowerCase_def
      toLowerCase_char_def maskValue_def)

text \<open>
  C9: in both candidate loops of \<open>find_users_by_attribute\<close> (the status-filtering loop of
  a formatted search and the verification loop of the other two methods), a candidate
  whose full-record fetch fails is skipped: the matches collected so far are unchanged,
  nothing but the attempted call is recorded, and the loop goes on with the remaining
  candidates exactly as it would have without that candidate.
\<close>

theorem failed_fetch_is_skipped:
  assumes "getUser cl h (user_id u) = Inl e"
  shows "for_candidates (status_filter_body cl c) (u # us) m h =
           for_candidates (status_filter_body cl c) us m (h @ [GetUser (user_id u)]) \<and>
         for_candidates (verify_body cl c) (u # us) m h =
           for_candidates (verify_body cl c) us m (h @ [GetUser (user_id u)])"
  using assms by (simp add: status_filter_body_def verify_body_def call_getUser_def)

theorem failed_fetch_is_skipped_witness:
  "getUser free_text_client [] ''u2'' = Inl (Error ''Not found'') \<and>
   for_candidates (verify_body free_text_client (department_criterion Co))
     [\<lparr>user_id = ''u2'', status = ''ACTIVE'', profile = None\<rparr>] [engineer ''u1''] [] =
     ([engineer ''u1''], [GetUser ''u2''])"
proof -
  have failed: "getUser free_text_client []
      (user_id \<lparr>user_id = ''u2'', status = ''ACTIVE'', profile = None\<rparr>) =
      Inl (Error ''Not found'')"
    by (simp add: free_text_client_def)
  show ?thesis
    using failed_fetch_is_skipped [OF failed, of "department_criterion Co" "[]"
        "[engineer ''u1'']"] failed
    by simp
qed

section \<open>Properties of the dispatcher\<close>

text \<open>
  C1, as the spec states it, fails on the single-file draft of the server: its handler of
  tool calls catches every failure and raises it again. For a name without handler the
  call ends with a raised error, not with a result.
\<close>

theorem draft_dispatcher_raises:
  "callTool_draft no_handlers ''reset_password'' None [] =
     (Inl (Error ''Error executing tool reset_password: Unknown tool: reset_password''), [])"
  by (simp add: callTool_draft_def no_handlers_def)

text \<open>
  C1, amended: the handler of tool calls that \<open>startServer\<close> installs returns a result on
  every path. For a name that is not in \<open>HANDLERS\<close> the result has \<open>isError = true\<close> and
  the text \<open>Error: Unknown tool: \<close> followed by the name, and no handler runs. When the
  handler found under the name raises, the failure is caught and the result has
  \<open>isError = true\<close> and the text \<open>Error: \<close> followed by the message of the failure.
\<close>

theorem callTool_returns_error_results:
  "(HANDLERS toolName = None \<longrightarrow>
      callTool HANDLERS toolName arguments (lg, s) =
        (\<lparr>content = [''Error: Unknown tool: '' @ toolName], isError = True, data = None\<rparr>,
         lg @ [''Received tool call: '' @ toolName,
               ''Error handling tool call: Unknown tool: '' @ toolName], s)) \<and>
   (\<forall>handler e s'.
      HANDLERS toolName = Some handler \<and>
      handler (case arguments of None \<Rightarrow> Map.empty | Some a \<Rightarrow> a) s = (Inl e, s') \<longrightarrow>
      callTool HANDLERS toolName arguments (lg, s) =
        (\<lparr>content = [''Error: '' @ message e], isError = True, data = None\<rparr>,
         lg @ [''Received tool call: '' @ toolName,
               ''Executing handler for tool: '' @ toolName,
               ''Error handling tool call: '' @ message e], s'))"
  by (simp add: callTool_def callTool_try_def error_result_def)

theorem callTool_returns_error_results_witness:
  "example_handlers ''reset_password'' = None \<and>
   fst (callTool example_handlers ''reset_password'' None ([], [])) =
     \<lparr>content = [''Error: Unknown tool: reset_password''], isError = True, data = None\<rparr> \<and>
   get_user issue_lines (Inr scan_only_client) user_id Map.empty [] =
     (Inl (Error ''userId: Required; ''), []) \<and>
   fst (callTool example_handlers ''get_user'' None ([], [])) =
     \<lparr>content = [''Error: userId: Required; ''], isError = True, data = None\<rparr>"
proof -
  have unknown: "example_handlers ''reset_password'' = None"
    by (simp add: example_handlers_def)
  have known: "example_handlers ''get_user'' =
      Some (get_user issue_lines (Inr scan_only_client) user_id)"
    by (simp add: example_handlers_def)
  have raises: "get_user issue_lines (Inr scan_only_client) user_id
      (case None of None \<Rightarrow> Map.empty | Some a \<Rightarrow> a) [] =
      (Inl (Error ''userId: Required; ''), [])"
    by (simp add: get_user_def validated_def getUser_parse_def z_string_min1_def
        issue_lines_def)
  have first: "fst (callTool example_handlers ''reset_password'' None ([], [])) =
      \<lparr>content = [''Error: Unknown tool: reset_password''], isError = True, data = None\<rparr>"
    using callTool_returns_error_results
      [of example_handlers "''reset_password''" None "[]" "[]",
        THEN conjunct1, rule_format, OF unknown]
    by simp
  have second: "fst (callTool example_handlers ''get_user'' None ([], [])) =
      \<lparr>content = [''Error: userId: Required; ''], isError = True, data = None\<rparr>"
    using callTool_returns_error_results
      [of example_handlers "''get_user''" None "[]" "[]",
        THEN conjunct2, rule_format, OF conjI [OF known raises]]
    by simp
  from unknown first raises second show ?thesis by simp
qed

text \<open>
  C2, as the spec states it, fails: validation is not resolved before the handler runs.
  The dispatcher does not validate; it calls the handler found under the name with the
  arguments as they are, and the log shows the call of \<open>get_user\<close> for arguments without
  \<open>userId\<close>. The validation that fails is the handler's own first statement.
\<close>

theorem handler_runs_on_invalid_arguments:
  "example_handlers ''get_user'' = Some (get_user issue_lines (Inr scan_only_client) user_id) \<and>
   snd (callTool example_handlers ''get_user'' None ([], [])) =
     ([''Received tool call: get_user'', ''Executing handler for tool: get_user'',
       ''Error handling tool call: userId: Required; ''], [])"
  by (simp add: callTool_def callTool_try_def example_handlers_def get_user_def validated_def
      getUser_parse_def z_string_min1_def issue_lines_def)

text \<open>
  C2, amended: the dispatcher calls the handler, whose first statement validates the
  arguments against the schema of the command. When that validation fails, the handler
  raises before any of its remote-directory work (what the handler acts on is left as it
  was), and the dispatcher returns a result with \<open>isError = true\<close> whose text is \<open>Error: \<close>
  followed by the message of the validation failure. For \<open>get_user\<close> without \<open>userId\<close>
  that message renders one issue, with the path \<open>userId\<close> and the cause \<open>Required\<close>.
\<close>

theorem validation_failure_reaches_no_directory:
  "(\<forall>parse body e.
      HANDLERS toolName = Some (validated parse body) \<and> parse parameters = Inl e \<longrightarrow>
      callTool HANDLERS toolName (Some parameters) (lg, s) =
        (\<lparr>content = [''Error: '' @ message e], isError = True, data = None\<rparr>,
         lg @ [''Received tool call: '' @ toolName,
               ''Executing handler for tool: '' @ toolName,
               ''Error handling tool call: '' @ message e], s)) \<and>
   (parameters ''userId'' = None \<longrightarrow>
      getUser_parse zm parameters =
        Inl (Error (zm [\<lparr>path = [''userId''], cause = ''Required''\<rparr>])))"
  by (simp add: callTool_def callTool_try_def validated_def getUser_parse_def
      z_string_min1_def error_result_def)

theorem validation_failure_reaches_no_directory_witness:
  "example_handlers ''get_user'' =
     Some (validated (getUser_parse issue_lines)
             (get_user_body (Inr scan_only_client) user_id)) \<and>
   getUser_parse issue_lines Map.empty =
     Inl (Error (issue_lines [\<lparr>path = [''userId''], cause = ''Required''\<rparr>])) \<and>
   callTool example_handlers ''get_user'' (Some Map.empty) ([], []) =
     (\<lparr>content = [''Error: userId: Required; ''], isError = True, data = None\<rparr>,
      [''Received tool call: get_user'', ''Executing handler for tool: get_user'',
       ''Error handling tool call: userId: Required; ''], [])"
proof -
  have known: "example_handlers ''get_user'' =
      Some (validated (getUser_parse issue_lines)
              (get_user_body (Inr scan_only_client) user_id))"
    by (simp add: example_handlers_def get_user_def)
  have missing: "(Map.empty :: raw) ''userId'' = None"
    by simp
  note claim = validation_failure_reaches_no_directory
    [of example_handlers "''get_user''" Map.empty "[]" "[]" issue_lines]
  have invalid: "getUser_parse issue_lines Map.empty =
      Inl (Error (issue_lines [\<lparr>path = [''userId''], cause = ''Required''\<rparr>]))"
    using claim [THEN conjunct2, rule_format, OF missing] .
  have "callTool example_handlers ''get_user'' (Some Map.empty) ([], []) =
      (\<lparr>content = [''Error: userId: Required; ''], isError = True, data = None\<rparr>,
       [''Received tool call: get_user'', ''Executing handler for tool: get_user'',
        ''Error handling tool call: userId: Required; ''], [])"
    using claim [THEN conjunct1, rule_format, OF conjI [OF known invalid]]
    by (simp add: issue_lines_def)
  with known invalid show ?thesis
    by simp
qed

section \<open>Properties of the onboarding stages\<close>

subsection \<open>Stage 1\<close>






subsection \<open>Stage 3\<close>












subsection \<open>The entities of stage 2 and stage 3\<close>

lemma group_keys_failed:
  "group_keys (res\<lparr>failed := failed res @ [f]\<rparr>) = insert (gf_key f) (group_keys res)"
  by (auto simp: group_keys_def)

lemma group_keys_success:
  "group_keys (res\<lparr>success := success res @ [s]\<rparr>) = insert (gs_key s) (group_keys res)"
  by (auto simp: group_keys_def)

lemma assign_user_keys:
  "assign_user cl m uid res h = (res', h') \<Longrightarrow> group_keys res' = insert uid (group_keys res)"
  by (auto simp: assign_user_def group_keys_failed group_keys_success gs_key_def gf_key_def
      id_str_def split: prod.splits sum.splits option.splits if_splits)

lemma assign_users_keys:
  "group_keys (fst (assign_users cl m ids res h)) = group_keys res \<union> set ids"
proof (induction ids arbitrary: res h)
  case Nil
  then show ?case by simp
next
  case (Cons uid ids)
  obtain res' h' where step: "assign_user cl m uid res h = (res', h')"
    by (cases "assign_user cl m uid res h")
  from assign_user_keys [OF step] Cons.IH [of res' h'] step show ?case by auto
qed

lemma provision_keys_failed:
  "provision_keys (res\<lparr>failed := failed res @ [f]\<rparr>) =
     insert (pe_userId f) (provision_keys res)"
  by (auto simp: provision_keys_def)

lemma provision_keys_success:
  "provision_keys (res\<lparr>success := success res @ [s]\<rparr>) =
     insert (pe_userId s) (provision_keys res)"
  by (auto simp: provision_keys_def)

lemma provision_user_keys:
  "provision_user cl apps uid res h = (res', h') \<Longrightarrow>
   provision_keys res' = insert uid (provision_keys res)"
  by (auto simp: provision_user_def provision_keys_failed provision_keys_success
      split: prod.splits sum.splits option.splits if_splits)

lemma provision_users_keys:
  "provision_keys (fst (provision_users cl apps ids res h)) = provision_keys res \<union> set ids"
proof (induction ids arbitrary: res h)
  case Nil
  then show ?case by simp
next
  case (Cons uid ids)
  obtain res' h' where step: "provision_user cl apps uid res h = (res', h')"
    by (cases "provision_user cl apps uid res h")
  from provision_user_keys [OF step] Cons.IH [of res' h'] step show ?case by auto
qed

lemma group_stage_keys:
  assumes "group_stage zm okta ids m h = (Inr (Some res), h')" and "m \<noteq> []"
  shows "group_keys res = id_str ` set ids"
proof -
  from assms obtain cl where "okta = Inr cl"
    and "assign_users cl m (map id_str ids) \<lparr>success = [], failed = []\<rparr> h = (res, h')"
    by (auto simp: group_stage_def assign_users_to_groups_def
        split: if_splits sum.splits prod.splits stage_result.splits)
  with assign_users_keys [of cl m "map id_str ids" "\<lparr>success = [], failed = []\<rparr>" h]
  show ?thesis by (simp add: group_keys_def)
qed

lemma application_stage_keys:
  assumes "application_stage zm okta ids apps h = (Inr (Some res), h')" and "apps \<noteq> []"
  shows "provision_keys res = id_str ` set ids"
proof -
  from assms obtain cl where "okta = Inr cl"
    and "provision_users cl apps (map id_str ids) \<lparr>success = [], failed = []\<rparr> h = (res, h')"
    by (auto simp: application_stage_def provision_applications_def
        split: if_splits sum.splits prod.splits stage_result.splits)
  with provision_users_keys [of cl apps "map id_str ids" "\<lparr>success = [], failed = []\<rparr>" h]
  show ?thesis by (simp add: provision_keys_def)
qed

subsection \<open>The calls of stage 2 and stage 3\<close>

lemma extends_about_iff:
  "extends_about keys h h' \<longleftrightarrow> (\<exists>calls. h' = h @ calls \<and> about keys calls)"
proof
  assume "extends_about keys h h'"
  then have "h' = h @ drop (length h) h'" and "about keys (drop (length h) h')"
    by (simp_all add: extends_about_def, metis append_take_drop_id)
  then show "\<exists>calls. h' = h @ calls \<and> about keys calls" by blast
next
  assume "\<exists>calls. h' = h @ calls \<and> about keys calls"
  then show "extends_about keys h h'" by (auto simp: extends_about_def)
qed

lemma extends_refl: "extends_about keys h h"
  by (simp add: extends_about_def about_def)

lemma extends_trans:
  "extends_about keys h h1 \<Longrightarrow> extends_about keys h1 h2 \<Longrightarrow> extends_about keys h h2"
  by (auto simp: extends_about_iff about_def)

lemma extends_mono:
  "extends_about keys h h' \<Longrightarrow> keys \<subseteq> keys' \<Longrightarrow> extends_about keys' h h'"
  by (auto simp: extends_about_iff about_def list_all_iff split: option.splits)

lemma extends_step:
  "call_user c = Some u \<Longrightarrow> u \<in> keys \<Longrightarrow> extends_about keys (h @ [c]) h' \<Longrightarrow>
   extends_about keys h h'"
  by (auto simp: extends_about_iff about_def)

lemma fetch_extends: "extends_about {uid} h (h @ [GetUser uid])"
  by (simp add: extends_about_def about_def)

lemma assign_groups_extends:
  "assign_groups cl gs uid acc h = (r, h') \<Longrightarrow> extends_about {uid} h h'"
proof (induction gs arbitrary: acc h)
  case Nil
  then show ?case by (simp add: extends_refl)
next
  case (Cons g gs)
  show ?case
  proof (cases "assignUserToGroup cl h g uid")
    case (Inl e)
    with Cons.prems show ?thesis
      by (auto simp: call_assignUserToGroup_def extends_about_def about_def)
  next
    case (Inr u)
    with Cons.prems have "assign_groups cl gs uid (acc @ [g]) (h @ [AssignUserToGroup g uid]) =
        (r, h')"
      by (simp add: call_assignUserToGroup_def)
    then have "extends_about {uid} (h @ [AssignUserToGroup g uid]) h'"
      by (rule Cons.IH)
    then show ?thesis
      by (rule extends_step [rotated 2]) simp_all
  qed
qed

lemma assign_user_extends:
  "assign_user cl m uid res h = (res', h') \<Longrightarrow> extends_about {uid} h h'"
  by (auto simp: assign_user_def call_getUser_def fetch_extends
      split: sum.splits option.splits prod.splits if_splits
      dest!: assign_groups_extends intro: extends_trans [OF fetch_extends])

lemma assign_users_extends:
  "assign_users cl m ids res h = (res', h') \<Longrightarrow> extends_about (set ids) h h'"
proof (induction ids arbitrary: res h)
  case Nil
  then show ?case by (simp add: extends_refl)
next
  case (Cons uid ids)
  obtain res1 h1 where step: "assign_user cl m uid res h = (res1, h1)"
    by (cases "assign_user cl m uid res h")
  have "extends_about {uid} h h1"
    using step by (rule assign_user_extends)
  then have one: "extends_about (set (uid # ids)) h h1"
    by (rule extends_mono) simp
  from Cons.prems step have "assign_users cl m ids res1 h1 = (res', h')" by simp
  then have "extends_about (set ids) h1 h'"
    by (rule Cons.IH)
  then have "extends_about (set (uid # ids)) h1 h'"
    by (rule extends_mono) auto
  with one show ?case by (rule extends_trans)
qed

lemma grant_applications_extends:
  "grant_applications cl apps uid acc hf h = (r, h') \<Longrightarrow> extends_about {uid} h h'"
proof (induction apps arbitrary: acc hf h)
  case Nil
  then show ?case by (simp add: extends_refl)
next
  case (Cons a apps)
  from Cons.prems obtain acc' hf' where
    "grant_applications cl apps uid acc' hf' (h @ [AssignUserToApplication a uid]) = (r, h')"
    by (cases "assignUserToApplication cl h a uid")
       (simp_all add: call_assignUserToApplication_def)
  then have "extends_about {uid} (h @ [AssignUserToApplication a uid]) h'"
    by (rule Cons.IH)
  then show ?case
    by (rule extends_step [rotated 2]) simp_all
qed

lemma provision_user_extends:
  "provision_user cl apps uid res h = (res', h') \<Longrightarrow> extends_about {uid} h h'"
  by (auto simp: provision_user_def call_getUser_def fetch_extends
      split: sum.splits option.splits prod.splits if_splits
      dest!: grant_applications_extends intro: extends_trans [OF fetch_extends])

lemma provision_users_extends:
  "provision_users cl apps ids res h = (res', h') \<Longrightarrow> extends_about (set ids) h h'"
proof (induction ids arbitrary: res h)
  case Nil
  then show ?case by (simp add: extends_refl)
next
  case (Cons uid ids)
  obtain res1 h1 where step: "provision_user cl apps uid res h = (res1, h1)"
    by (cases "provision_user cl apps uid res h")
  have "extends_about {uid} h h1"
    using step by (rule provision_user_extends)
  then have one: "extends_about (set (uid # ids)) h h1"
    by (rule extends_mono) simp
  from Cons.prems step have "provision_users cl apps ids res1 h1 = (res', h')" by simp
  then have "extends_about (set ids) h1 h'"
    by (rule Cons.IH)
  then have "extends_about (set (uid # ids)) h1 h'"
    by (rule extends_mono) auto
  with one show ?case by (rule extends_trans)
qed

lemma group_stage_extends:
  "group_stage zm okta ids m h = (r, h') \<Longrightarrow> extends_about (id_str ` set ids) h h'"
  by (auto simp: group_stage_def assign_users_to_groups_def extends_refl
      split: sum.splits prod.splits stage_result.splits if_splits
      dest!: assign_users_extends)

lemma application_stage_extends:
  "application_stage zm okta ids apps h = (r, h') \<Longrightarrow>
   extends_about (id_str ` set ids) h h'"
  by (auto simp: application_stage_def provision_applications_def extends_refl
      split: sum.splits prod.splits stage_result.splits if_splits
      dest!: provision_users_extends)

lemma workflow_extends:
  assumes "bulk_user_import okta papa csv act swe dg h = (StageData imported, h1)"
    and "csv \<noteq> []"
    and "run_onboarding_workflow zm okta papa csv act dg gm apps swe h = (r, h')"
  shows "extends_about (created_keys imported) h1 h'"
proof (cases "success imported = []")
  case True
  with assms show ?thesis
    by (auto simp: run_onboarding_workflow_def workflow_try_def csvData_issues_def extends_refl)
next
  case False
  let ?ids = "map s_id (success imported)"
  have keys: "id_str ` set ?ids = created_keys imported"
    by (simp add: created_keys_def image_comp)
  obtain g h2 where grp: "group_stage zm okta ?ids gm h1 = (g, h2)"
    by (cases "group_stage zm okta ?ids gm h1")
  obtain a h3 where app: "application_stage zm okta ?ids apps h2 = (a, h3)"
    by (cases "application_stage zm okta ?ids apps h2")
  have e2: "extends_about (created_keys imported) h1 h2"
    using group_stage_extends [OF grp] keys by simp
  have e3: "extends_about (created_keys imported) h2 h3"
    using application_stage_extends [OF app] keys by simp
  have e13: "extends_about (created_keys imported) h1 h3"
    by (rule extends_trans [OF e2 e3])
  show ?thesis
    using assms False grp app e2 e13
    by (auto simp: run_onboarding_workflow_def workflow_try_def csvData_issues_def split: sum.splits)
qed

subsection \<open>The workflow\<close>

text \<open>What a complete report was compiled from.\<close>

lemma workflow_complete_parts:
  assumes "run_onboarding_workflow zm okta papa csv act dg gm apps swe h =
             (Inr (WorkflowComplete report w), h')"
  obtains h1 h2 where
    "bulk_user_import okta papa csv act swe dg h = (StageData (userImport w), h1)"
    "success (userImport w) \<noteq> []"
    "group_stage zm okta (map s_id (success (userImport w))) gm h1 =
       (Inr (Some (groupAssignment w)), h2)"
    "application_stage zm okta (map s_id (success (userImport w))) apps h2 =
       (Inr (Some (applicationProvisioning w)), h')"
    "report = summary_text gm apps w"
  using assms
  by (auto simp: run_onboarding_workflow_def workflow_try_def compile_workflow_def Let_def
      split: if_splits prod.splits stage_result.splits sum.splits option.splits)

text \<open>
  C6: in \<open>run_onboarding_workflow\<close> (on a non-empty CSV text, as its schema demands),
  every directory call made after the import is about a user created by the import, so
  no entity is processed downstream unless it was created. In a complete report the
  entities of the group assignment, when a mapping is given, and those of the
  provisioning, when applications are given, are exactly the keys of the successes of
  the import. And when the import has no success (it returns no data, or data without
  successes), the workflow returns the result \<open>No users were successfully created during
  the onboarding workflow.\<close> with the history the import left: stages 2 and 3 make no
  call.
\<close>

theorem downstream_entities_are_the_created_ones:
  "(\<forall>imported h1 r h'.
      csv \<noteq> [] \<and>
      bulk_user_import okta papa csv act swe dg h = (StageData imported, h1) \<and>
      run_onboarding_workflow zm okta papa csv act dg gm apps swe h = (r, h') \<longrightarrow>
      extends_about (created_keys imported) h1 h') \<and>
   (\<forall>report w h'.
      run_onboarding_workflow zm okta papa csv act dg gm apps swe h =
        (Inr (WorkflowComplete report w), h') \<longrightarrow>
      fst (bulk_user_import okta papa csv act swe dg h) = StageData (userImport w) \<and>
      success (userImport w) \<noteq> [] \<and>
      (gm \<noteq> [] \<longrightarrow> group_keys (groupAssignment w) = created_keys (userImport w)) \<and>
      (apps \<noteq> [] \<longrightarrow>
         provision_keys (applicationProvisioning w) = created_keys (userImport w))) \<and>
   (csv \<noteq> [] \<and>
    (\<forall>imported. fst (bulk_user_import okta papa csv act swe dg h) = StageData imported \<longrightarrow>
       success imported = []) \<longrightarrow>
    (\<exists>d. run_onboarding_workflow zm okta papa csv act dg gm apps swe h =
       (Inr (NoUsersCreated
          ''No users were successfully created during the onboarding workflow.'' d),
        snd (bulk_user_import okta papa csv act swe dg h))))"
proof (intro conjI allI impI)
  fix imported h1 r h'
  assume "csv \<noteq> [] \<and>
      bulk_user_import okta papa csv act swe dg h = (StageData imported, h1) \<and>
      run_onboarding_workflow zm okta papa csv act dg gm apps swe h = (r, h')"
  then show "extends_about (created_keys imported) h1 h'"
    using workflow_extends by blast
next
  fix report w h'
  assume run: "run_onboarding_workflow zm okta papa csv act dg gm apps swe h =
      (Inr (WorkflowComplete report w), h')"
  from run obtain h1 h2 where
    imp: "bulk_user_import okta papa csv act swe dg h = (StageData (userImport w), h1)" and
    nonempty: "success (userImport w) \<noteq> []" and
    grp: "group_stage zm okta (map s_id (success (userImport w))) gm h1 =
       (Inr (Some (groupAssignment w)), h2)" and
    app: "application_stage zm okta (map s_id (success (userImport w))) apps h2 =
       (Inr (Some (applicationProvisioning w)), h')"
    by (rule workflow_complete_parts)
  show "fst (bulk_user_import okta papa csv act swe dg h) = StageData (userImport w)"
    using imp by simp
  show "success (userImport w) \<noteq> []" by (rule nonempty)
  show "group_keys (groupAssignment w) = created_keys (userImport w)" if "gm \<noteq> []"
    using group_stage_keys [OF grp that] by (simp add: created_keys_def image_comp)
  show "provision_keys (applicationProvisioning w) = created_keys (userImport w)"
    if "apps \<noteq> []"
    using application_stage_keys [OF app that] by (simp add: created_keys_def image_comp)
next
  assume a: "csv \<noteq> [] \<and>
    (\<forall>imported. fst (bulk_user_import okta papa csv act swe dg h) = StageData imported \<longrightarrow>
       success imported = [])"
  then show "\<exists>d. run_onboarding_workflow zm okta papa csv act dg gm apps swe h =
       (Inr (NoUsersCreated
          ''No users were successfully created during the onboarding workflow.'' d),
        snd (bulk_user_import okta papa csv act swe dg h))"
    by (auto simp: run_onboarding_workflow_def workflow_try_def csvData_issues_def no_users_created_def
        split: prod.splits stage_result.splits)
qed

theorem downstream_entities_are_the_created_ones_witness:
  "\<exists>report w h'.
     run_onboarding_workflow issue_lines (Inr onboarding_client)
       (parsed_as [ann_row, bob_row, cy_row]) ''email,firstName,lastName'' True []
       engineering_mapping [''app1'', ''app2''] True [] = (Inr (WorkflowComplete report w), h') \<and>
     created_keys (userImport w) = {''id-ann@x.com''} \<and>
     group_keys (groupAssignment w) = {''id-ann@x.com''} \<and>
     provision_keys (applicationProvisioning w) = {''id-ann@x.com''} \<and>
     extends_about {''id-ann@x.com''}
       [CreateUser (newUser ann_row), ActivateUser ''id-ann@x.com'' True,
        CreateUser (newUser cy_row), ActivateUser ''id-cy@x.com'' True] h'"
proof -
  let ?imported = "\<lparr>success = [\<lparr>s_id = Some ''id-ann@x.com'', s_email = ''ann@x.com'',
        s_status = ''ACTIVE''\<rparr>],
      failed = [\<lparr>f_email = ''bob@x.com'', f_reason = missing_required_fields\<rparr>,
                \<lparr>f_email = ''cy@x.com'', f_reason = ''Activation failed''\<rparr>]\<rparr>"
  let ?h1 = "[CreateUser (newUser ann_row), ActivateUser ''id-ann@x.com'' True,
      CreateUser (newUser cy_row), ActivateUser ''id-cy@x.com'' True]"
  note claim = downstream_entities_are_the_created_ones
    [of "''email,firstName,lastName''" "Inr onboarding_client"
      "parsed_as [ann_row, bob_row, cy_row]" True True "[]" "[]" issue_lines
      engineering_mapping "[''app1'', ''app2'']"]
  have imp: "bulk_user_import (Inr onboarding_client) (parsed_as [ann_row, bob_row, cy_row])
      ''email,firstName,lastName'' True True [] [] = (StageData ?imported, ?h1)"
    by (simp add: bulk_user_import_def import_row_def create_row_user_def newUser_def optional_field_def
        call_createUser_def call_activateUser_def truthy_id_def id_str_def
        missing_required_fields_def or_else_def onboarding_client_def parsed_as_def
        ann_row_def bob_row_def cy_row_def row_of_def)
  obtain report w h' where run:
    "run_onboarding_workflow issue_lines (Inr onboarding_client)
       (parsed_as [ann_row, bob_row, cy_row]) ''email,firstName,lastName'' True []
       engineering_mapping [''app1'', ''app2''] True [] = (Inr (WorkflowComplete report w), h')"
    by (simp add: run_onboarding_workflow_def workflow_try_def csvData_issues_def bulk_user_import_def
        import_row_def create_row_user_def newUser_def optional_field_def
        call_createUser_def call_activateUser_def truthy_id_def id_str_def
        or_else_def group_stage_def userIds_issues_def assign_users_to_groups_def
        assign_user_def groupsToAssign_def add_mapped_group_def set_add_def
        call_assignUserToGroup_def application_stage_def applicationIds_issues_def
        provision_applications_def provision_user_def call_assignUserToApplication_def
        call_getUser_def compile_workflow_def Let_def onboarding_client_def engineer_def
        engineering_mapping_def parsed_as_def ann_row_def bob_row_def cy_row_def row_of_def)
  have nonempty: "''email,firstName,lastName'' \<noteq> []"
    by simp
  have calls: "extends_about (created_keys ?imported) ?h1 h'"
    using claim [THEN conjunct1, rule_format, OF conjI [OF nonempty conjI [OF imp run]]] .
  from claim [THEN conjunct2, THEN conjunct1, rule_format, OF run] imp
  have w: "userImport w = ?imported"
    and "group_keys (groupAssignment w) = created_keys (userImport w)"
    and "provision_keys (applicationProvisioning w) = created_keys (userImport w)"
    by (simp_all add: engineering_mapping_def)
  moreover have "created_keys ?imported = {''id-ann@x.com''}"
    by (simp add: created_keys_def id_str_def)
  ultimately show ?thesis
    using run calls by auto
qed

lemma startsWith_append: "startsWith (s @ t) s"
  by (induction s) auto

lemma includes_str_prefix: "includes_str (s @ t) s"
  by (cases "s @ t") (auto simp: startsWith_append dest: sym)

lemma includes_str_append_right: "includes_str t s \<Longrightarrow> includes_str (p @ t) s"
  by (induction p) auto

lemma includes_group_section:
  "includes_str (summary_text [] apps w) (bullet @ '' Group Assignment: Not configured'')"
  unfolding summary_text_def group_section_def
  by (simp only: if_False not_False_eq_True not_True_eq_False refl simp_thms)
     (rule includes_str_append_right, rule includes_str_append_right,
      rule includes_str_append_right, rule includes_str_prefix)

lemma includes_application_section:
  "includes_str (summary_text gm [] w)
     (bullet @ '' Application Provisioning: Not configured'')"
  unfolding summary_text_def application_section_def
  by (simp only: if_False not_False_eq_True not_True_eq_False refl simp_thms)
     (rule includes_str_append_right, rule includes_str_append_right,
      rule includes_str_append_right, rule includes_str_append_right,
      rule includes_str_append_right, rule includes_str_append_right,
      rule includes_str_prefix)

text \<open>
  C10, as stated, fails where the workflow does not reach its report: with an empty
  mapping and no applications, a CSV whose only row lacks \<open>lastName\<close> gives the early
  result, whose text says nothing of the stages and whose data holds the import only.
\<close>

theorem no_report_of_stages_without_created_users:
  "run_onboarding_workflow issue_lines (Inr onboarding_client) (parsed_as [bob_row])
     ''email,firstName'' True [] [] [] True [] =
     (Inr (NoUsersCreated
             ''No users were successfully created during the onboarding workflow.''
             (Some \<lparr>success = [],
                    failed = [\<lparr>f_email = ''bob@x.com'',
                               f_reason =
                                 ''Missing required fields (email, firstName, or lastName)''\<rparr>]\<rparr>)),
      []) \<and>
   \<not> includes_str ''No users were successfully created during the onboarding workflow.''
       ''Not configured''"
  by (simp add: run_onboarding_workflow_def workflow_try_def csvData_issues_def bulk_user_import_def
      import_row_def or_else_def no_users_created_def missing_required_fields_def
      parsed_as_def bob_row_def row_of_def)

text \<open>
  C10, amended: stage 2 runs only with a non-empty mapping and stage 3 only with a
  non-empty list of applications; with an empty mapping (an empty list of applications)
  the stage makes no directory call and its results are empty. Whenever the workflow
  reaches its complete report, that is, the import created at least one user and no
  stage raised, the report carries these empty results for the stage and its text has
  the line \<open>Group Assignment: Not configured\<close> (\<open>Application Provisioning: Not
  configured\<close>); with both empty, no call is made after the import.
\<close>

theorem unconfigured_stages_do_nothing:
  "group_stage zm okta ids [] h = (Inr (Some \<lparr>success = [], failed = []\<rparr>), h) \<and>
   application_stage zm okta ids [] h = (Inr (Some \<lparr>success = [], failed = []\<rparr>), h) \<and>
   (\<forall>report w h'.
      run_onboarding_workflow zm okta papa csv act dg gm apps swe h =
        (Inr (WorkflowComplete report w), h') \<longrightarrow>
      (gm = [] \<longrightarrow>
         groupAssignment w = \<lparr>success = [], failed = []\<rparr> \<and>
         includes_str report (bullet @ '' Group Assignment: Not configured'')) \<and>
      (apps = [] \<longrightarrow>
         applicationProvisioning w = \<lparr>success = [], failed = []\<rparr> \<and>
         includes_str report (bullet @ '' Application Provisioning: Not configured'')) \<and>
      (gm = [] \<and> apps = [] \<longrightarrow> h' = snd (bulk_user_import okta papa csv act swe dg h)))"
proof (intro conjI allI impI)
  show "group_stage zm okta ids [] h = (Inr (Some \<lparr>success = [], failed = []\<rparr>), h)"
    by (simp add: group_stage_def)
  show "application_stage zm okta ids [] h = (Inr (Some \<lparr>success = [], failed = []\<rparr>), h)"
    by (simp add: application_stage_def)
next
  fix report w h'
  assume run: "run_onboarding_workflow zm okta papa csv act dg gm apps swe h =
      (Inr (WorkflowComplete report w), h')"
  from run obtain h1 h2 where
    imp: "bulk_user_import okta papa csv act swe dg h = (StageData (userImport w), h1)" and
    grp: "group_stage zm okta (map s_id (success (userImport w))) gm h1 =
       (Inr (Some (groupAssignment w)), h2)" and
    app: "application_stage zm okta (map s_id (success (userImport w))) apps h2 =
       (Inr (Some (applicationProvisioning w)), h')" and
    report: "report = summary_text gm apps w"
    by (rule workflow_complete_parts)
  show "groupAssignment w = \<lparr>success = [], failed = []\<rparr>" if "gm = []"
    using grp that by (simp add: group_stage_def)
  show "includes_str report (bullet @ '' Group Assignment: Not configured'')" if "gm = []"
    using report that includes_group_section by simp
  show "applicationProvisioning w = \<lparr>success = [], failed = []\<rparr>" if "apps = []"
    using app that by (simp add: application_stage_def)
  show "includes_str report (bullet @ '' Application Provisioning: Not configured'')"
    if "apps = []"
    using report that includes_application_section by simp
  show "h' = snd (bulk_user_import okta papa csv act swe dg h)" if "gm = [] \<and> apps = []"
    using imp grp app that by (simp add: group_stage_def application_stage_def)
qed

theorem unconfigured_stages_do_nothing_witness:
  "\<exists>report w.
     run_onboarding_workflow issue_lines (Inr onboarding_client)
       (parsed_as [ann_row, bob_row]) ''email,firstName,lastName'' False [''G0''] [] []
       True [] =
       (Inr (WorkflowComplete report w),
        [CreateUser (newUser ann_row), AssignUserToGroup ''G0'' ''id-ann@x.com'']) \<and>
     groupAssignment w = \<lparr>success = [], failed = []\<rparr> \<and>
     applicationProvisioning w = \<lparr>success = [], failed = []\<rparr> \<and>
     includes_str report (bullet @ '' Group Assignment: Not configured'') \<and>
     includes_str report (bullet @ '' Application Provisioning: Not configured'')"
proof -
  note claim = unconfigured_stages_do_nothing
    [where zm = issue_lines and okta = "Inr onboarding_client" and
      papa = "parsed_as [ann_row, bob_row]" and csv = "''email,firstName,lastName''" and
      act = False and dg = "[''G0'']" and gm = "[]" and apps = "[]" and swe = True and
      h = "[]"]
  obtain report w h' where run:
    "run_onboarding_workflow issue_lines (Inr onboarding_client)
       (parsed_as [ann_row, bob_row]) ''email,firstName,lastName'' False [''G0''] [] []
       True [] = (Inr (WorkflowComplete report w), h')"
    by (simp add: run_onboarding_workflow_def workflow_try_def csvData_issues_def bulk_user_import_def
        import_row_def create_row_user_def newUser_def optional_field_def
        call_createUser_def call_activateUser_def truthy_id_def id_str_def
        or_else_def call_assignUserToGroup_def group_stage_def application_stage_def
        compile_workflow_def Let_def onboarding_client_def parsed_as_def ann_row_def
        bob_row_def row_of_def)
  have imp: "snd (bulk_user_import (Inr onboarding_client) (parsed_as [ann_row, bob_row])
      ''email,firstName,lastName'' False True [''G0''] []) =
      [CreateUser (newUser ann_row), AssignUserToGroup ''G0'' ''id-ann@x.com'']"
    by (simp add: bulk_user_import_def import_row_def create_row_user_def newUser_def optional_field_def
        call_createUser_def call_activateUser_def truthy_id_def id_str_def
        or_else_def call_assignUserToGroup_def onboarding_client_def parsed_as_def
        ann_row_def bob_row_def row_of_def)
  from claim [THEN conjunct2, THEN conjunct2, rule_format, OF run] imp
  have "h' = [CreateUser (newUser ann_row), AssignUserToGroup ''G0'' ''id-ann@x.com'']"
    and "groupAssignment w = \<lparr>success = [], failed = []\<rparr>"
    and "applicationProvisioning w = \<lparr>success = [], failed = []\<rparr>"
    and "includes_str report (bullet @ '' Group Assignment: Not configured'')"
    and "includes_str report (bullet @ '' Application Provisioning: Not configured'')"
    by simp_all
  with run show ?thesis by blast
qed

end
